theory Spec2Isabelle
  imports Complex_Main
begin

section \<open>The G-code move state of klippy/extras/gcode\_move.py\<close>

text \<open>
  The class \<open>GCodeMove\<close> keeps three four-component position lists, two mode flags,
  three scalar factors, a dictionary of saved states and the bound transform. Each
  command handler \<open>cmd_*\<close> mutates the object in place and may raise; the model passes
  the object explicitly and returns the raised error (if any) together with the object
  as the handler left it, so that a write made before a \<open>raise\<close> is visible.

  The builtin \<open>float\<close> and \<open>int\<close> string parsers are parameters \<open>pfloat\<close> and \<open>pint\<close> of the
  model (\<open>None\<close> is Python's \<open>ValueError\<close>): the theorems hold for every parser.
\<close>

subsection \<open>Python floats\<close>

text \<open>
  A Python float is an IEEE 754 binary64 number: a finite value, an infinity or NaN.
  The sign of zero is not modelled: no operation of this file tells the two zeros
  apart (a division by either raises \<open>ZeroDivisionError\<close>).
\<close>

datatype double = Fin real | PInf | NInf | NaN

definition pow2 :: "int \<Rightarrow> real" where
  "pow2 e = (if 0 \<le> e then 2 ^ nat e else 1 / 2 ^ nat (- e))"

text \<open>
  \<open>expo n a\<close> is the binary exponent of \<open>a > 0\<close>, that is \<open>e\<close> with
  \<open>2\<^sup>e \<le> a < 2\<^sup>e\<^sup>+\<^sup>1\<close>, found in at most \<open>n\<close> halvings or doublings.
\<close>

fun expo :: "nat \<Rightarrow> real \<Rightarrow> int" where
  "expo 0 a = 0"
| "expo (Suc n) a =
     (if 2 \<le> a then expo n (a / 2) + 1
      else if a < 1 then expo n (a * 2) - 1
      else 0)"

text \<open>Rounding of a non-negative real to the nearest integer, a tie to the even one.\<close>

definition rhe :: "real \<Rightarrow> int" where
  "rhe y =
     (let f = \<lfloor>y\<rfloor>; d = y - of_int f in
      if d < 1 / 2 then f
      else if 1 / 2 < d then f + 1
      else if even f then f else f + 1)"

text \<open>
  \<open>rnd x\<close> is the binary64 number nearest to the real \<open>x\<close> (round to nearest, ties to
  even): 53 significant bits, exponents from \<open>-1022\<close> to \<open>1023\<close>, gradual underflow
  below \<open>2\<^sup>-\<^sup>1\<^sup>0\<^sup>2\<^sup>2\<close> in steps of \<open>2\<^sup>-\<^sup>1\<^sup>0\<^sup>7\<^sup>4\<close>, and overflow to an infinity when the
  rounded magnitude reaches \<open>2\<^sup>1\<^sup>0\<^sup>2\<^sup>4\<close>.
\<close>

definition rnd :: "real \<Rightarrow> double" where
  "rnd x =
     (let a = \<bar>x\<bar> in
      if pow2 1024 \<le> a then (if 0 < x then PInf else NInf)
      else
        let e = (if a < pow2 (- 1022) then - 1022 else expo 1100 a);
            q = pow2 (e - 52);
            r = of_int (rhe (a / q)) * q
        in if pow2 1024 \<le> r then (if 0 < x then PInf else NInf)
           else Fin (if 0 \<le> x then r else - r))"

text \<open>
  The arithmetic operators on floats. \<open>fquot\<close> is the quotient by a divisor other
  than zero; Python raises \<open>ZeroDivisionError\<close> on a zero divisor before dividing, which
  each caller below checks first.
\<close>

fun fneg :: "double \<Rightarrow> double" where
  "fneg (Fin x) = Fin (- x)"
| "fneg PInf = NInf"
| "fneg NInf = PInf"
| "fneg NaN = NaN"

fun fadd :: "double \<Rightarrow> double \<Rightarrow> double" where
  "fadd (Fin x) (Fin y) = rnd (x + y)"
| "fadd NaN b = NaN"
| "fadd a NaN = NaN"
| "fadd PInf NInf = NaN"
| "fadd NInf PInf = NaN"
| "fadd PInf b = PInf"
| "fadd NInf b = NInf"
| "fadd a PInf = PInf"
| "fadd a NInf = NInf"

definition fsub :: "double \<Rightarrow> double \<Rightarrow> double" where
  "fsub a b = fadd a (fneg b)"

text \<open>The sign of a float as a real: \<open>1\<close>, \<open>-1\<close>, or \<open>0\<close> for zero and NaN.\<close>

fun sign :: "double \<Rightarrow> real" where
  "sign (Fin x) = sgn x"
| "sign PInf = 1"
| "sign NInf = - 1"
| "sign NaN = 0"

definition inf_of :: "real \<Rightarrow> double" where
  "inf_of sg = (if sg = 0 then NaN else if 0 < sg then PInf else NInf)"

fun fmul :: "double \<Rightarrow> double \<Rightarrow> double" where
  "fmul (Fin x) (Fin y) = rnd (x * y)"
| "fmul NaN b = NaN"
| "fmul a NaN = NaN"
| "fmul a b = inf_of (sign a * sign b)"

fun fquot :: "double \<Rightarrow> double \<Rightarrow> double" where
  "fquot (Fin x) (Fin y) = rnd (x / y)"
| "fquot NaN b = NaN"
| "fquot a NaN = NaN"
| "fquot (Fin x) b = Fin 0"
| "fquot a (Fin y) = inf_of (sign a * sgn y)"
| "fquot a b = NaN"

text \<open>The comparison \<open>a <= b\<close>: false as soon as one side is NaN.\<close>

fun fle :: "double \<Rightarrow> double \<Rightarrow> bool" where
  "fle (Fin x) (Fin y) = (x \<le> y)"
| "fle NaN b = False"
| "fle a NaN = False"
| "fle NInf b = True"
| "fle a PInf = True"
| "fle a b = False"

text \<open>
  The reals that are binary64 numbers are those that rounding leaves alone; a float is
  well formed when its finite value is one of them.
\<close>

definition is_double :: "double \<Rightarrow> bool" where
  "is_double a = (case a of Fin x \<Rightarrow> rnd x = Fin x | PInf \<Rightarrow> True | NInf \<Rightarrow> True | NaN \<Rightarrow> True)"

subsection \<open>Errors\<close>

text \<open>
  \<open>gcmd.error(msg)\<close> is the command error of the dispatcher; its messages are kept
  structured (format string and arguments). The other constructors are Python's
  builtin exceptions, which no handler of this file catches except \<open>ValueError\<close> in
  \<open>cmd_G1\<close>.
\<close>

datatype gcmd_msg =
    UnableToParseMove string      \<comment> \<open>"Unable to parse move '%s'" % commandline\<close>
  | InvalidSpeed string           \<comment> \<open>"Invalid speed in '%s'" % commandline\<close>
  | UnknownGcodeState string      \<comment> \<open>"Unknown g-code state: %s" % state\_name\<close>
  | NoInches                      \<comment> \<open>"Machine does not support G20 (inches) command"\<close>
  | UnableToParseParam string string  \<comment> \<open>raised by \<open>get_float\<close>/\<open>get_int\<close>: commandline, parameter name\<close>
  | ParamNotAbove string string       \<comment> \<open>raised by \<open>get_float\<close>: commandline, parameter name\<close>

datatype error =
    GcmdError gcmd_msg
  | ConfigError
  | ValueError
  | IndexError
  | TypeError
  | ZeroDivisionError

subsection \<open>The command object\<close>

text \<open>
  A command as the dispatcher hands it to a handler: its text
  (\<open>gcmd.get_commandline()\<close>) and its parameter dictionary
  (\<open>gcmd.get_command_parameters()\<close>), whose values are strings.
\<close>

record gcmd =
  commandline :: string
  params :: "string \<rightharpoonup> string"

text \<open>
  Modelled from the spec: \<open>gcmd.get_float\<close>, \<open>gcmd.get_int\<close> and \<open>gcmd.get\<close> are
  methods of the dispatcher's command object (klippy/gcode.py), which is not part of
  the sources at hand. Following sections 4.2, 4.3 and 7 of the specification: an
  absent parameter yields the default; a present parameter that does not parse fails
  with the command's parse error, reported with the command text; a parsed value that
  is not strictly above the bound \<open>above\<close> (here \<open>abv\<close>; the test is \<open>value <= above\<close>)
  fails with the invalid-parameter error. \<open>get_float\<close> is the call with default \<open>None\<close>
  (the result \<open>None\<close> says that the parameter is absent); \<open>get_float_default\<close> is
  the call with a float default.
\<close>

definition get_float ::
  "(string \<Rightarrow> double option) \<Rightarrow> gcmd \<Rightarrow> string \<Rightarrow> double option \<Rightarrow> error + double option"
where
  "get_float pfloat g name abv =
     (case params g name of
        None \<Rightarrow> Inr None
      | Some str \<Rightarrow>
          (case pfloat str of
             None \<Rightarrow> Inl (GcmdError (UnableToParseParam (commandline g) name))
           | Some v \<Rightarrow>
               (case abv of
                  None \<Rightarrow> Inr (Some v)
                | Some a \<Rightarrow>
                    if fle v a then Inl (GcmdError (ParamNotAbove (commandline g) name))
                    else Inr (Some v))))"

definition get_float_default ::
  "(string \<Rightarrow> double option) \<Rightarrow> gcmd \<Rightarrow> string \<Rightarrow> double \<Rightarrow> double option \<Rightarrow> error + double"
where
  "get_float_default pfloat g name dflt abv =
     (case get_float pfloat g name abv of
        Inl e \<Rightarrow> Inl e
      | Inr None \<Rightarrow> Inr dflt
      | Inr (Some v) \<Rightarrow> Inr v)"

definition get_int ::
  "(string \<Rightarrow> int option) \<Rightarrow> gcmd \<Rightarrow> string \<Rightarrow> int \<Rightarrow> error + int"
where
  "get_int pint g name dflt =
     (case params g name of
        None \<Rightarrow> Inr dflt
      | Some str \<Rightarrow>
          (case pint str of
             None \<Rightarrow> Inl (GcmdError (UnableToParseParam (commandline g) name))
           | Some v \<Rightarrow> Inr v))"

definition get_str :: "gcmd \<Rightarrow> string \<Rightarrow> string \<Rightarrow> string" where
  "get_str g name dflt = (case params g name of None \<Rightarrow> dflt | Some str \<Rightarrow> str)"

subsection \<open>The object state\<close>

text \<open>
  The providers a transform can be bound to: the toolhead, or a transform object
  registered by another module. \<open>move_with_transform\<close> holds \<open>None\<close> or the bound
  method \<open>provider.move\<close>; \<open>position_with_transform\<close> holds the constructor's
  \<open>lambda: [0., 0., 0., 0.]\<close> or the bound method \<open>provider.get_position\<close>.
\<close>

datatype provider = Toolhead | Transform nat

datatype move_fn = MoveOf provider

datatype position_fn = ZeroLambda | GetPositionOf provider

text \<open>
  The dictionary stored by \<open>cmd_SAVE_GCODE_STATE\<close>, one field per key. Its three
  lists are copies (\<open>list(...)\<close>) made when saving and copied again when restoring, so
  no other name refers to them: they are values.
\<close>

record saved_state =
  sv_absolute_coord :: bool
  sv_absolute_extrude :: bool
  sv_base_position :: "double list"
  sv_last_position :: "double list"
  sv_homing_position :: "double list"
  sv_speed :: double
  sv_speed_factor :: double
  sv_extrude_factor :: double

text \<open>
  The fields of \<open>GCodeMove\<close> that the handlers read and write. The attributes
  \<open>base_position\<close>, \<open>last_position\<close> and \<open>homing_position\<close> hold references to list
  objects: two of them may refer to the same list (\<open>cmd_SOVOL_GET_STATE\<close> binds
  \<open>last_position\<close> and \<open>base_position\<close> to one list), and an item assignment through
  one name is then seen through the other. So the fields are addresses and \<open>store\<close>
  maps an address to the list that lives there.

  \<open>issued\<close> is not a field of the class: it logs the calls
  \<open>provider.move(position, speed)\<close> made through \<open>move_with_transform\<close>, in order, with
  the contents of the list at the time of the call. A provider's own refusal of a move
  is outside the model.
\<close>

type_synonym addr = nat

record gcode_move =
  is_printer_ready :: bool
  absolute_coord :: bool
  absolute_extrude :: bool
  base_position :: addr
  last_position :: addr
  homing_position :: addr
  store :: "addr \<Rightarrow> double list"
  speed :: double
  speed_factor :: double
  extrude_factor :: double
  saved_states :: "string \<rightharpoonup> saved_state"
  move_transform :: "provider option"
  move_with_transform :: "move_fn option"
  position_with_transform :: position_fn
  issued :: "(provider \<times> double list \<times> double) list"

type_synonym outcome = "error option \<times> gcode_move"

text \<open>The lists the three attributes refer to.\<close>

definition base_pos :: "gcode_move \<Rightarrow> double list" where
  "base_pos s = store s (base_position s)"

definition last_pos :: "gcode_move \<Rightarrow> double list" where
  "last_pos s = store s (last_position s)"

definition homing_pos :: "gcode_move \<Rightarrow> double list" where
  "homing_pos s = store s (homing_position s)"

text \<open>
  A newly created list is an object distinct from every list the object refers to:
  it is put at an address above the three in use.
\<close>

definition fresh :: "gcode_move \<Rightarrow> addr" where
  "fresh s = Suc (max (base_position s) (max (last_position s) (homing_position s)))"

text \<open>\<open>self.base_position = xs\<close> and the like, for a new list \<open>xs\<close>.\<close>

definition bind_base :: "double list \<Rightarrow> gcode_move \<Rightarrow> gcode_move" where
  "bind_base xs s = s\<lparr>base_position := fresh s, store := (store s)(fresh s := xs)\<rparr>"

definition bind_last :: "double list \<Rightarrow> gcode_move \<Rightarrow> gcode_move" where
  "bind_last xs s = s\<lparr>last_position := fresh s, store := (store s)(fresh s := xs)\<rparr>"

definition bind_homing :: "double list \<Rightarrow> gcode_move \<Rightarrow> gcode_move" where
  "bind_homing xs s = s\<lparr>homing_position := fresh s, store := (store s)(fresh s := xs)\<rparr>"

text \<open>
  The item assignment \<open>lst[i] = v\<close> on the list at address \<open>a\<close>, for an index in
  range (the callers raise \<open>IndexError\<close> otherwise).
\<close>

definition setitem :: "addr \<Rightarrow> nat \<Rightarrow> double \<Rightarrow> gcode_move \<Rightarrow> gcode_move" where
  "setitem a i v s = s\<lparr>store := (store s)(a := (store s a)[i := v])\<rparr>"

text \<open>The state after \<open>__init__\<close>; \<open>1. / 60.\<close> is the rounded quotient.\<close>

definition init :: gcode_move where
  "init =
     \<lparr> is_printer_ready = False,
       absolute_coord = True,
       absolute_extrude = True,
       base_position = 0,
       last_position = 1,
       homing_position = 2,
       store = (\<lambda>a. [])(0 := [Fin 0, Fin 0, Fin 0, Fin 0],
                           1 := [Fin 0, Fin 0, Fin 0, Fin 0],
                           2 := [Fin 0, Fin 0, Fin 0, Fin 0]),
       speed = Fin 25,
       speed_factor = fquot (Fin 1) (Fin 60),
       extrude_factor = Fin 1,
       saved_states = Map.empty,
       move_transform = None,
       move_with_transform = None,
       position_with_transform = ZeroLambda,
       issued = [] \<rparr>"

subsection \<open>The transform binding\<close>

text \<open>
  \<open>self.move_with_transform(self.last_position, speed)\<close>: calling \<open>None\<close> raises
  \<open>TypeError\<close>; a bound method records the call. \<open>pos\<close> is the contents of the list
  passed.
\<close>

definition call_move_with_transform :: "gcode_move \<Rightarrow> double list \<Rightarrow> double \<Rightarrow> outcome" where
  "call_move_with_transform s pos spd =
     (case move_with_transform s of
        None \<Rightarrow> (Some TypeError, s)
      | Some (MoveOf p) \<Rightarrow> (None, s\<lparr>issued := issued s @ [(p, pos, spd)]\<rparr>))"

text \<open>
  \<open>self.position_with_transform()\<close>; \<open>world p\<close> is the position provider \<open>p\<close>
  reports at the time of the call.
\<close>

definition call_position_with_transform :: "(provider \<Rightarrow> double list) \<Rightarrow> gcode_move \<Rightarrow> double list" where
  "call_position_with_transform world s =
     (case position_with_transform s of
        ZeroLambda \<Rightarrow> [Fin 0, Fin 0, Fin 0, Fin 0]
      | GetPositionOf p \<Rightarrow> world p)"

text \<open>
  \<open>reset_last_position\<close> binds \<open>last_position\<close> to the list the call returns: the
  lambda builds a new list at each call, and a provider is taken to return a list of
  its own.
\<close>

definition reset_last_position :: "(provider \<Rightarrow> double list) \<Rightarrow> gcode_move \<Rightarrow> gcode_move" where
  "reset_last_position world s =
     (if is_printer_ready s
      then bind_last (call_position_with_transform world s) s
      else s)"

definition handle_ready :: "(provider \<Rightarrow> double list) \<Rightarrow> gcode_move \<Rightarrow> gcode_move" where
  "handle_ready world s =
     (let s1 = s\<lparr>is_printer_ready := True\<rparr>;
          s2 = (if move_transform s1 = None
                then s1\<lparr>move_with_transform := Some (MoveOf Toolhead),
                        position_with_transform := GetPositionOf Toolhead\<rparr>
                else s1)
      in reset_last_position world s2)"

text \<open>
  \<open>set_move_transform(transform, force)\<close> returns the previous transform;
  \<open>toolhead\<close> is the result of \<open>lookup_object('toolhead', None)\<close>.
\<close>

definition set_move_transform ::
  "provider option \<Rightarrow> provider \<Rightarrow> bool \<Rightarrow> gcode_move \<Rightarrow> error + (provider option \<times> gcode_move)"
where
  "set_move_transform toolhead transform force s =
     (if move_transform s \<noteq> None \<and> \<not> force then Inl ConfigError
      else
        let old_transform = (case move_transform s of None \<Rightarrow> toolhead | Some t \<Rightarrow> Some t)
        in Inr (old_transform,
                s\<lparr>move_transform := Some transform,
                  move_with_transform := Some (MoveOf transform),
                  position_with_transform := GetPositionOf transform\<rparr>))"

subsection \<open>Derived views\<close>

text \<open>
  \<open>_get_gcode_position\<close>: \<open>zip\<close> truncates to the shorter list; \<open>p[3] /= extrude_factor\<close>
  raises \<open>IndexError\<close> on fewer than four components and \<open>ZeroDivisionError\<close> on a zero
  factor.
\<close>

definition get_gcode_position :: "gcode_move \<Rightarrow> error + double list" where
  "get_gcode_position s =
     (let p = map (\<lambda>(lp, bp). fsub lp bp) (zip (last_pos s) (base_pos s))
      in if \<not> 3 < length p then Inl IndexError
         else if extrude_factor s = Fin 0 then Inl ZeroDivisionError
         else Inr (p[3 := fquot (p ! 3) (extrude_factor s)]))"

definition get_gcode_speed :: "gcode_move \<Rightarrow> error + double" where
  "get_gcode_speed s =
     (if speed_factor s = Fin 0 then Inl ZeroDivisionError
      else Inr (fquot (speed s) (speed_factor s)))"

definition get_gcode_speed_override :: "gcode_move \<Rightarrow> double" where
  "get_gcode_speed_override s = fmul (speed_factor s) (Fin 60)"

subsection \<open>Movement: \<open>cmd_G1\<close>\<close>

text \<open>
  The first block of \<open>cmd_G1\<close> (the power-loss-recovery record) reads and writes files
  and no field of the object; its file operations are taken to succeed. What it can
  do to the command is raise: \<open>float(params['Z'])\<close> stands outside the \<open>try\<close>, so a \<open>Z\<close>
  that does not parse raises an uncaught \<open>ValueError\<close> there. \<open>cmd_from_sd\<close> is the
  flag \<open>self.v_sd.cmd_from_sd\<close>.
\<close>

definition plr_block :: "(string \<Rightarrow> double option) \<Rightarrow> bool \<Rightarrow> gcmd \<Rightarrow> error option" where
  "plr_block pfloat cmd_from_sd g =
     (if params g ''G'' \<noteq> None \<and> params g ''X'' \<noteq> None \<and> params g ''Y'' \<noteq> None
         \<and> params g ''Z'' \<noteq> None
      then
        (if cmd_from_sd
         then (case params g ''Z'' of
                 None \<Rightarrow> None
               | Some str \<Rightarrow> (case pfloat str of None \<Rightarrow> Some ValueError | Some z \<Rightarrow> None))
         else None)
      else None)"

text \<open>One iteration of \<open>for pos, axis in enumerate('XYZ')\<close>.\<close>

definition g1_axis :: "(string \<Rightarrow> double option) \<Rightarrow> gcmd \<Rightarrow> nat \<Rightarrow> string \<Rightarrow> gcode_move \<Rightarrow> outcome" where
  "g1_axis pfloat g pos axis s =
     (case params g axis of
        None \<Rightarrow> (None, s)
      | Some str \<Rightarrow>
          (case pfloat str of
             None \<Rightarrow> (Some ValueError, s)
           | Some v \<Rightarrow>
               if \<not> absolute_coord s then
                 (if pos < length (last_pos s)
                  then (None, setitem (last_position s) pos (fadd (last_pos s ! pos) v) s)
                  else (Some IndexError, s))
               else
                 (if pos < length (base_pos s) \<and> pos < length (last_pos s)
                  then (None, setitem (last_position s) pos (fadd v (base_pos s ! pos)) s)
                  else (Some IndexError, s))))"

fun g1_axes :: "(string \<Rightarrow> double option) \<Rightarrow> gcmd \<Rightarrow> (nat \<times> string) list \<Rightarrow> gcode_move \<Rightarrow> outcome" where
  "g1_axes pfloat g [] s = (None, s)"
| "g1_axes pfloat g ((pos, axis) # rest) s =
     (case g1_axis pfloat g pos axis s of
        (Some e, s') \<Rightarrow> (Some e, s')
      | (None, s') \<Rightarrow> g1_axes pfloat g rest s')"

definition g1_E :: "(string \<Rightarrow> double option) \<Rightarrow> gcmd \<Rightarrow> gcode_move \<Rightarrow> outcome" where
  "g1_E pfloat g s =
     (case params g ''E'' of
        None \<Rightarrow> (None, s)
      | Some str \<Rightarrow>
          (case pfloat str of
             None \<Rightarrow> (Some ValueError, s)
           | Some e \<Rightarrow>
               let v = fmul e (extrude_factor s) in
               if \<not> absolute_coord s \<or> \<not> absolute_extrude s then
                 (if 3 < length (last_pos s)
                  then (None, setitem (last_position s) 3 (fadd (last_pos s ! 3) v) s)
                  else (Some IndexError, s))
               else
                 (if 3 < length (base_pos s) \<and> 3 < length (last_pos s)
                  then (None, setitem (last_position s) 3 (fadd v (base_pos s ! 3)) s)
                  else (Some IndexError, s))))"

definition g1_F :: "(string \<Rightarrow> double option) \<Rightarrow> gcmd \<Rightarrow> gcode_move \<Rightarrow> outcome" where
  "g1_F pfloat g s =
     (case params g ''F'' of
        None \<Rightarrow> (None, s)
      | Some str \<Rightarrow>
          (case pfloat str of
             None \<Rightarrow> (Some ValueError, s)
           | Some gcode_speed \<Rightarrow>
               if fle gcode_speed (Fin 0)
               then (Some (GcmdError (InvalidSpeed (commandline g))), s)
               else (None, s\<lparr>speed := fmul gcode_speed (speed_factor s)\<rparr>)))"

text \<open>The body of the \<open>try\<close>: the axes, then \<open>E\<close>, then \<open>F\<close>, stopping at the first raise.\<close>

definition g1_try :: "(string \<Rightarrow> double option) \<Rightarrow> gcmd \<Rightarrow> gcode_move \<Rightarrow> outcome" where
  "g1_try pfloat g s =
     (case g1_axes pfloat g (List.enumerate 0 [''X'', ''Y'', ''Z'']) s of
        (Some e, s1) \<Rightarrow> (Some e, s1)
      | (None, s1) \<Rightarrow>
          (case g1_E pfloat g s1 of
             (Some e, s2) \<Rightarrow> (Some e, s2)
           | (None, s2) \<Rightarrow> g1_F pfloat g s2))"

text \<open>
  \<open>except ValueError\<close> turns a parse failure into the command error; every other
  exception passes. The move is issued after the \<open>try\<close>.
\<close>

definition cmd_G1 :: "(string \<Rightarrow> double option) \<Rightarrow> bool \<Rightarrow> gcmd \<Rightarrow> gcode_move \<Rightarrow> outcome" where
  "cmd_G1 pfloat cmd_from_sd g s =
     (case plr_block pfloat cmd_from_sd g of
        Some e \<Rightarrow> (Some e, s)
      | None \<Rightarrow>
          (case g1_try pfloat g s of
             (Some e, s') \<Rightarrow>
               (Some (if e = ValueError then GcmdError (UnableToParseMove (commandline g)) else e),
                s')
           | (None, s') \<Rightarrow> call_move_with_transform s' (last_pos s') (speed s')))"

subsection \<open>Mode switches\<close>

definition cmd_G20 :: "gcmd \<Rightarrow> gcode_move \<Rightarrow> outcome" where
  "cmd_G20 g s = (Some (GcmdError NoInches), s)"

definition cmd_G21 :: "gcmd \<Rightarrow> gcode_move \<Rightarrow> outcome" where
  "cmd_G21 g s = (None, s)"

definition cmd_M82 :: "gcmd \<Rightarrow> gcode_move \<Rightarrow> outcome" where
  "cmd_M82 g s = (None, s\<lparr>absolute_extrude := True\<rparr>)"

definition cmd_M83 :: "gcmd \<Rightarrow> gcode_move \<Rightarrow> outcome" where
  "cmd_M83 g s = (None, s\<lparr>absolute_extrude := False\<rparr>)"

definition cmd_G90 :: "gcmd \<Rightarrow> gcode_move \<Rightarrow> outcome" where
  "cmd_G90 g s = (None, s\<lparr>absolute_coord := True\<rparr>)"

definition cmd_G91 :: "gcmd \<Rightarrow> gcode_move \<Rightarrow> outcome" where
  "cmd_G91 g s = (None, s\<lparr>absolute_coord := False\<rparr>)"

subsection \<open>Origin: \<open>cmd_G92\<close>\<close>




subsection \<open>Overrides: \<open>cmd_M220\<close> and \<open>cmd_M221\<close>\<close>

text \<open>
  \<open>value = gcmd.get_float('S', 100., above=0.) / (60. * 100.)\<close>: the divisor is the
  product of two constants, \<open>6000\<close>, so this division does not raise.
\<close>

definition cmd_M220 :: "(string \<Rightarrow> double option) \<Rightarrow> gcmd \<Rightarrow> gcode_move \<Rightarrow> outcome" where
  "cmd_M220 pfloat g s =
     (case get_float_default pfloat g ''S'' (Fin 100) (Some (Fin 0)) of
        Inl e \<Rightarrow> (Some e, s)
      | Inr sv \<Rightarrow>
          let value = fquot sv (fmul (Fin 60) (Fin 100)) in
          (case get_gcode_speed s of
             Inl e \<Rightarrow> (Some e, s)
           | Inr gs \<Rightarrow> (None, s\<lparr>speed := fmul gs value, speed_factor := value\<rparr>)))"

definition cmd_M221 :: "(string \<Rightarrow> double option) \<Rightarrow> gcmd \<Rightarrow> gcode_move \<Rightarrow> outcome" where
  "cmd_M221 pfloat g s =
     (case get_float_default pfloat g ''S'' (Fin 100) (Some (Fin 0)) of
        Inl e \<Rightarrow> (Some e, s)
      | Inr sv \<Rightarrow>
          let new_extrude_factor = fquot sv (Fin 100) in
          if \<not> 3 < length (last_pos s) then (Some IndexError, s)
          else
            let last_e_pos = last_pos s ! 3 in
            if \<not> 3 < length (base_pos s) then (Some IndexError, s)
            else if extrude_factor s = Fin 0 then (Some ZeroDivisionError, s)
            else
              let e_value = fquot (fsub last_e_pos (base_pos s ! 3)) (extrude_factor s) in
              (None,
               (setitem (base_position s) 3
                  (fsub last_e_pos (fmul e_value new_extrude_factor)) s)
                 \<lparr>extrude_factor := new_extrude_factor\<rparr>))"

subsection \<open>Offsets: \<open>cmd_SET_GCODE_OFFSET\<close>\<close>

text \<open>
  One iteration of \<open>for pos, axis in enumerate('XYZE')\<close>, on the local list
  \<open>move_delta\<close> and the object. The \<open>_ADJUST\<close> parameter is looked up only when the
  plain one is absent; \<open>continue\<close> leaves both untouched.
\<close>

definition offset_axis ::
  "(string \<Rightarrow> double option) \<Rightarrow> gcmd \<Rightarrow> nat \<Rightarrow> string \<Rightarrow> double list \<times> gcode_move
     \<Rightarrow> error option \<times> double list \<times> gcode_move"
where
  "offset_axis pfloat g pos axis ms =
     (let move_delta = fst ms; s = snd ms;
          apply_offset = (\<lambda>offset.
            if pos < length (homing_pos s) \<and> pos < length (base_pos s)
            then
              let delta = fsub offset (homing_pos s ! pos);
                  s1 = setitem (base_position s) pos (fadd (base_pos s ! pos) delta) s
              in (None, move_delta[pos := delta], setitem (homing_position s1) pos offset s1)
            else (Some IndexError, move_delta, s))
      in
      case get_float pfloat g axis None of
        Inl e \<Rightarrow> (Some e, move_delta, s)
      | Inr (Some offset) \<Rightarrow> apply_offset offset
      | Inr None \<Rightarrow>
          (case get_float pfloat g (axis @ ''_ADJUST'') None of
             Inl e \<Rightarrow> (Some e, move_delta, s)
           | Inr None \<Rightarrow> (None, move_delta, s)
           | Inr (Some adj) \<Rightarrow>
               if pos < length (homing_pos s)
               then apply_offset (fadd adj (homing_pos s ! pos))
               else (Some IndexError, move_delta, s)))"

fun offset_loop ::
  "(string \<Rightarrow> double option) \<Rightarrow> gcmd \<Rightarrow> (nat \<times> string) list \<Rightarrow> double list \<times> gcode_move
     \<Rightarrow> error option \<times> double list \<times> gcode_move"
where
  "offset_loop pfloat g [] ms = (None, ms)"
| "offset_loop pfloat g ((pos, axis) # rest) ms =
     (case offset_axis pfloat g pos axis ms of
        (Some e, ms') \<Rightarrow> (Some e, ms')
      | (None, ms') \<Rightarrow> offset_loop pfloat g rest ms')"

text \<open>\<open>for pos, delta in enumerate(move_delta): self.last_position[pos] += delta\<close>.\<close>

fun add_deltas :: "(nat \<times> double) list \<Rightarrow> gcode_move \<Rightarrow> outcome" where
  "add_deltas [] s = (None, s)"
| "add_deltas ((pos, delta) # rest) s =
     (if pos < length (last_pos s)
      then add_deltas rest (setitem (last_position s) pos (fadd (last_pos s ! pos) delta) s)
      else (Some IndexError, s))"

definition cmd_SET_GCODE_OFFSET ::
  "(string \<Rightarrow> double option) \<Rightarrow> (string \<Rightarrow> int option) \<Rightarrow> gcmd \<Rightarrow> gcode_move \<Rightarrow> outcome"
where
  "cmd_SET_GCODE_OFFSET pfloat pint g s =
     (case offset_loop pfloat g (List.enumerate 0 [''X'', ''Y'', ''Z'', ''E''])
             ([Fin 0, Fin 0, Fin 0, Fin 0], s) of
        (Some e, move_delta, s1) \<Rightarrow> (Some e, s1)
      | (None, move_delta, s1) \<Rightarrow>
          (case get_int pint g ''MOVE'' 0 of
             Inl e \<Rightarrow> (Some e, s1)
           | Inr m \<Rightarrow>
               if m = 0 then (None, s1)
               else
                 (case get_float_default pfloat g ''MOVE_SPEED'' (speed s1) (Some (Fin 0)) of
                    Inl e \<Rightarrow> (Some e, s1)
                  | Inr spd \<Rightarrow>
                      (case add_deltas (List.enumerate 0 move_delta) s1 of
                         (Some e, s2) \<Rightarrow> (Some e, s2)
                       | (None, s2) \<Rightarrow>
                           call_move_with_transform s2 (last_pos s2) spd))))"

subsection \<open>Saved states: \<open>cmd_SAVE_GCODE_STATE\<close> and \<open>cmd_RESTORE_GCODE_STATE\<close>\<close>

definition cmd_SAVE_GCODE_STATE :: "gcmd \<Rightarrow> gcode_move \<Rightarrow> outcome" where
  "cmd_SAVE_GCODE_STATE g s =
     (let state_name = get_str g ''NAME'' ''default'' in
      (None,
       s\<lparr>saved_states := (saved_states s)(state_name \<mapsto>
           \<lparr> sv_absolute_coord = absolute_coord s,
             sv_absolute_extrude = absolute_extrude s,
             sv_base_position = base_pos s,
             sv_last_position = last_pos s,
             sv_homing_position = homing_pos s,
             sv_speed = speed s,
             sv_speed_factor = speed_factor s,
             sv_extrude_factor = extrude_factor s \<rparr>)\<rparr>))"

text \<open>
  \<open>self.base_position = list(state['base_position'])\<close> and the line after it bind the
  two attributes to new lists. The slice assignment
  \<open>self.last_position[:3] = state['last_position'][:3]\<close> replaces, in place, the first
  three components by (at most) the first three of the snapshot and never raises.
\<close>

definition cmd_RESTORE_GCODE_STATE ::
  "(string \<Rightarrow> double option) \<Rightarrow> (string \<Rightarrow> int option) \<Rightarrow> gcmd \<Rightarrow> gcode_move \<Rightarrow> outcome"
where
  "cmd_RESTORE_GCODE_STATE pfloat pint g s =
     (let state_name = get_str g ''NAME'' ''default'' in
      case saved_states s state_name of
        None \<Rightarrow> (Some (GcmdError (UnknownGcodeState state_name)), s)
      | Some state \<Rightarrow>
          let s1 = bind_homing (sv_homing_position state)
                     (bind_base (sv_base_position state)
                        (s\<lparr>absolute_coord := sv_absolute_coord state,
                           absolute_extrude := sv_absolute_extrude state\<rparr>))
                     \<lparr>speed := sv_speed state,
                      speed_factor := sv_speed_factor state,
                      extrude_factor := sv_extrude_factor state\<rparr>
          in
          if \<not> (3 < length (last_pos s1) \<and> 3 < length (sv_last_position state))
          then (Some IndexError, s1)
          else
            let e_diff = fsub (last_pos s1 ! 3) (sv_last_position state ! 3) in
            if \<not> 3 < length (base_pos s1) then (Some IndexError, s1)
            else
              let s2 = setitem (base_position s1) 3 (fadd (base_pos s1 ! 3) e_diff) s1
              in
              (case get_int pint g ''MOVE'' 0 of
                 Inl e \<Rightarrow> (Some e, s2)
               | Inr m \<Rightarrow>
                   if m = 0 then (None, s2)
                   else
                     (case get_float_default pfloat g ''MOVE_SPEED'' (speed s2) (Some (Fin 0)) of
                        Inl e \<Rightarrow> (Some e, s2)
                      | Inr spd \<Rightarrow>
                          let s3 = s2\<lparr>store := (store s2)(last_position s2 :=
                                        take 3 (sv_last_position state) @ drop 3 (last_pos s2))\<rparr>
                          in call_move_with_transform s3 (last_pos s3) spd)))"

subsection \<open>The recovery of a state: \<open>cmd_SOVOL_GET_STATE\<close>\<close>


subsection \<open>Well-formed states\<close>

text \<open>
  Every position list built by the constructor and the handlers has four components
  (section 3 of the specification).
\<close>

definition four :: "gcode_move \<Rightarrow> bool" where
  "four s \<longleftrightarrow> length (last_pos s) = 4 \<and> length (base_pos s) = 4 \<and> length (homing_pos s) = 4"

text \<open>
  The three attributes refer to three different lists, as in every state the
  constructor and the handlers other than \<open>cmd_SOVOL_GET_STATE\<close> build.
\<close>

definition separate :: "gcode_move \<Rightarrow> bool" where
  "separate s \<longleftrightarrow>
     last_position s \<noteq> base_position s \<and> last_position s \<noteq> homing_position s
     \<and> base_position s \<noteq> homing_position s"

text \<open>A float that is a number: neither an infinity nor NaN.\<close>

fun finite_double :: "double \<Rightarrow> bool" where
  "finite_double (Fin x) = True"
| "finite_double a = False"



subsection \<open>Sample commands and states\<close>

text \<open>
  Concrete inputs for the instances below: a parser that agrees with Python's \<open>float\<close>
  (resp. \<open>int\<close>) on the listed literals and rejects every other string, a command built
  from its text and its parameter dictionary, and a state in the middle of a print.
\<close>

definition sample_float :: "string \<Rightarrow> double option" where
  "sample_float = map_of [(''0'', Fin 0), (''1'', Fin 1), (''2'', Fin 2), (''5'', Fin 5),
     (''10'', Fin 10), (''30'', Fin 30), (''50'', Fin 50), (''129'', Fin 129),
     (''200'', Fin 200), (''1200'', Fin 1200), (''3000'', Fin 3000), (''-1'', Fin (- 1))]"

definition sample_int :: "string \<Rightarrow> int option" where
  "sample_int = map_of [(''0'', 0), (''1'', 1)]"

definition cmd :: "string \<Rightarrow> (string \<times> string) list \<Rightarrow> gcmd" where
  "cmd line ps = \<lparr> commandline = line, params = map_of ps \<rparr>"

definition printing :: gcode_move where
  "printing = init\<lparr> is_printer_ready := True,
       store := (store init)(0 := [Fin 1, Fin 1, Fin 0, Fin 3],
                             1 := [Fin 10, Fin 5, Fin 2, Fin 7]),
       move_with_transform := Some (MoveOf Toolhead),
       position_with_transform := GetPositionOf Toolhead \<rparr>"


text \<open>
  The print state saved under the default name, then an extrusion that takes the last
  extrusion component from \<open>7\<close> to \<open>9\<close>.
\<close>

definition saved_then_extruded :: gcode_move where
  "saved_then_extruded =
     setitem (last_position printing) 3 (Fin 9)
       (snd (cmd_SAVE_GCODE_STATE (cmd ''SAVE_GCODE_STATE'' []) printing))"

section \<open>Rounding\<close>

text \<open>
  Facts about \<open>rnd\<close>: a real \<open>m * 2\<^sup>k\<close> with \<open>|m| < 2\<^sup>5\<^sup>3\<close>, \<open>k \<ge> -1074\<close> and magnitude below
  \<open>2\<^sup>1\<^sup>0\<^sup>2\<^sup>4\<close> is a binary64 number, and every finite result of a rounding is one.
\<close>

lemma pow2_powr: "pow2 e = 2 powr (of_int e)"
proof (cases "0 \<le> e")
  case True
  have "(2::real) powr real (nat e) = 2 ^ nat e" by (rule powr_realpow) simp
  thus ?thesis using True by (simp add: pow2_def)
next
  case False
  have "(2::real) powr real (nat (- e)) = 2 ^ nat (- e)" by (rule powr_realpow) simp
  moreover have "(2::real) powr (of_int e) = 1 / 2 powr real (nat (- e))"
    using False by (simp add: powr_minus_divide [symmetric])
  ultimately show ?thesis using False by (simp add: pow2_def)
qed

lemma pow2_add: "pow2 (a + b) = pow2 a * pow2 b"
  by (simp add: pow2_powr powr_add)

lemma pow2_pos: "0 < pow2 e"
  by (simp add: pow2_powr)

lemma pow2_mono: "a \<le> b \<Longrightarrow> pow2 a \<le> pow2 b"
  by (simp add: pow2_powr)

lemma pow2_less: "pow2 a < pow2 b \<longleftrightarrow> a < b"
  by (simp add: pow2_powr)

lemma pow2_nat: "0 \<le> e \<Longrightarrow> pow2 e = of_int (2 ^ nat e)"
  by (simp add: pow2_def)

lemma pow2_Suc: "pow2 (e + 1) = 2 * pow2 e"
  using pow2_add [of e 1] by (simp add: pow2_def)

lemma pow2_pred: "pow2 (e - 1) = pow2 e / 2"
  using pow2_Suc [of "e - 1"] by simp

lemma expo_bracket:
  "pow2 (- int n) \<le> a \<Longrightarrow> a < pow2 (int n + 1) \<Longrightarrow>
   pow2 (expo n a) \<le> a \<and> a < pow2 (expo n a + 1)"
proof (induction n arbitrary: a)
  case 0
  then show ?case by (simp add: pow2_def)
next
  case (Suc n)
  show ?case
  proof (cases "2 \<le> a")
    case True
    have 1: "pow2 (- int n) \<le> a / 2"
    proof -
      have "pow2 (- int n) \<le> pow2 0" by (rule pow2_mono) simp
      thus ?thesis using True by (simp add: pow2_def)
    qed
    have 2: "a / 2 < pow2 (int n + 1)"
      using Suc.prems(2) pow2_Suc [of "int n + 1"] by (simp add: add.commute)
    let ?e = "expo n (a / 2)"
    from Suc.IH [OF 1 2] have "pow2 ?e \<le> a / 2" "a / 2 < pow2 (?e + 1)" by auto
    hence "pow2 (?e + 1) \<le> a" "a < pow2 (?e + 1 + 1)" unfolding pow2_Suc by auto
    thus ?thesis using True by simp
  next
    case False
    show ?thesis
    proof (cases "a < 1")
      case True
      have "- int (Suc n) = - int n - 1" by simp
      hence eq: "pow2 (- int (Suc n)) = pow2 (- int n) / 2" by (simp only: pow2_pred)
      have 1: "pow2 (- int n) \<le> a * 2"
        using Suc.prems(1) unfolding eq by simp
      have 2: "a * 2 < pow2 (int n + 1)"
      proof -
        have "pow2 1 \<le> pow2 (int n + 1)" by (rule pow2_mono) simp
        thus ?thesis using True by (simp add: pow2_def)
      qed
      let ?e = "expo n (a * 2)"
      from Suc.IH [OF 1 2] have "pow2 ?e \<le> a * 2" "a * 2 < pow2 (?e + 1)" by auto
      hence "pow2 (?e - 1) \<le> a" "a < pow2 (?e - 1 + 1)" unfolding pow2_Suc pow2_pred by auto
      thus ?thesis using True \<open>\<not> 2 \<le> a\<close> by simp
    next
      case False
      with \<open>\<not> 2 \<le> a\<close> show ?thesis by (simp add: pow2_def)
    qed
  qed
qed

lemma rhe_int: "rhe (of_int m) = m"
  by (simp add: rhe_def)

lemma rnd_exact:
  assumes m: "\<bar>m\<bar> < 2 ^ 53" and k: "- 1074 \<le> k" and x: "x = of_int m * pow2 k"
    and lt: "\<bar>x\<bar> < pow2 1024"
  shows "rnd x = Fin x"
proof -
  define a where "a = \<bar>x\<bar>"
  have a: "a = of_int \<bar>m\<bar> * pow2 k"
    using pow2_pos [of k] by (simp add: a_def x abs_mult)
  define e where "e = (if a < pow2 (- 1022) then - 1022 else expo 1100 a)"
  have ek: "e - 52 \<le> k"
  proof (cases "a < pow2 (- 1022)")
    case True
    then show ?thesis using k by (simp add: e_def)
  next
    case False
    hence lo: "pow2 (- 1022) \<le> a" by simp
    have "pow2 (- int 1100) \<le> pow2 (- 1022)" by (rule pow2_mono) simp
    hence 1: "pow2 (- int 1100) \<le> a" using lo by simp
    have "pow2 1024 \<le> pow2 (int 1100 + 1)" by (rule pow2_mono) simp
    hence 2: "a < pow2 (int 1100 + 1)" using lt by (simp add: a_def)
    have br: "pow2 (expo 1100 a) \<le> a" using expo_bracket [OF 1 2] by simp
    have "of_int \<bar>m\<bar> < (2::real) ^ 53" using m by (metis of_int_less_iff of_int_numeral of_int_power)
    hence "a < pow2 53 * pow2 k" using pow2_pos [of k] by (simp add: a pow2_def)
    hence "pow2 (expo 1100 a) < pow2 (53 + k)" using br by (simp add: pow2_add)
    hence "expo 1100 a < 53 + k" by (simp add: pow2_less)
    thus ?thesis using False by (simp add: e_def)
  qed
  define n where "n = nat (k - (e - 52))"
  have "pow2 k = pow2 (k - (e - 52)) * pow2 (e - 52)"
    using pow2_add [of "k - (e - 52)" "e - 52"] by simp
  also have "pow2 (k - (e - 52)) = of_int (2 ^ n)"
    using ek by (simp add: pow2_nat n_def)
  finally have pk: "pow2 k = of_int (2 ^ n) * pow2 (e - 52)" .
  have "a / pow2 (e - 52) = of_int (\<bar>m\<bar> * 2 ^ n)"
    using pow2_pos [of "e - 52"] by (simp add: a pk)
  hence "rhe (a / pow2 (e - 52)) = \<bar>m\<bar> * 2 ^ n" by (simp only: rhe_int)
  hence r: "of_int (rhe (a / pow2 (e - 52))) * pow2 (e - 52) = a"
    by (simp add: a pk)
  have sg: "(if 0 \<le> x then a else - a) = x" by (simp add: a_def)
  show ?thesis
    unfolding rnd_def Let_def a_def [symmetric] e_def [symmetric] r
    using lt sg by (simp add: a_def)
qed

lemma rhe_le: "y \<le> of_int M \<Longrightarrow> rhe y \<le> M"
proof -
  assume le: "y \<le> of_int M"
  show ?thesis
  proof (cases "y = of_int M")
    case True
    then show ?thesis by (simp add: rhe_int)
  next
    case False
    with le have "y < of_int M" by simp
    hence "\<lfloor>y\<rfloor> < M" by (simp add: floor_less_iff)
    thus ?thesis by (simp add: rhe_def Let_def)
  qed
qed

lemma rhe_nonneg: "0 \<le> y \<Longrightarrow> 0 \<le> rhe y"
  by (simp add: rhe_def Let_def)

lemma pow2_split: "pow2 (e + 1) = pow2 53 * pow2 (e - 52)"
proof -
  have "e + 1 = 53 + (e - 52)" by simp
  hence "pow2 (e + 1) = pow2 (53 + (e - 52))" by (simp only:)
  thus ?thesis by (simp only: pow2_add)
qed

lemma rnd_idem:
  assumes "rnd x = Fin y"
  shows "rnd y = Fin y"
proof -
  define a where "a = \<bar>x\<bar>"
  define e where "e = (if a < pow2 (- 1022) then - 1022 else expo 1100 a)"
  define q where "q = pow2 (e - 52)"
  define M where "M = rhe (a / q)"
  define r where "r = of_int M * q"
  have q0: "0 < q" by (simp add: q_def pow2_pos)
  have fin: "\<not> pow2 1024 \<le> a \<and> \<not> pow2 1024 \<le> r \<and> y = (if 0 \<le> x then r else - r)"
    using assms unfolding rnd_def Let_def a_def [symmetric] e_def [symmetric]
      q_def [symmetric] M_def [symmetric] r_def [symmetric]
    by (auto split: if_splits)
  have e_aq: "- 1022 \<le> e \<and> a / q < 2 ^ 53"
  proof (cases "a < pow2 (- 1022)")
    case True
    hence e: "e = - 1022" by (simp add: e_def)
    have "pow2 (- 1022) = pow2 52 * pow2 (- 1074)" using pow2_add [of 52 "- 1074"] by simp
    hence "a < pow2 52 * q" using True by (simp add: q_def e)
    hence "a / q < pow2 52" using q0 by (simp add: field_simps)
    also have "pow2 52 < 2 ^ 53" by (simp add: pow2_def)
    finally show ?thesis using e by simp
  next
    case False
    hence e: "e = expo 1100 a" and lo: "pow2 (- 1022) \<le> a" by (simp_all add: e_def)
    have "pow2 (- int 1100) \<le> pow2 (- 1022)" by (rule pow2_mono) simp
    hence 1: "pow2 (- int 1100) \<le> a" using lo by simp
    have "pow2 1024 \<le> pow2 (int 1100 + 1)" by (rule pow2_mono) simp
    hence 2: "a < pow2 (int 1100 + 1)" using fin by simp
    have br: "pow2 e \<le> a" "a < pow2 (e + 1)" using expo_bracket [OF 1 2] by (simp_all add: e)
    have "pow2 (- 1022) < pow2 (e + 1)" using lo br(2) by simp
    hence e_lo: "- 1022 \<le> e" by (simp add: pow2_less)
    have "a < pow2 53 * q" using br(2) by (simp add: q_def pow2_split)
    hence "a / q < pow2 53" using q0 by (simp add: field_simps)
    also have "pow2 53 = 2 ^ 53" by (simp add: pow2_def)
    finally show ?thesis using e_lo by simp
  qed
  have "0 \<le> a / q" using q0 by (simp add: a_def)
  hence M0: "0 \<le> M" unfolding M_def by (rule rhe_nonneg)
  have "a / q \<le> of_int (2 ^ 53)" using e_aq by simp
  hence M53: "M \<le> 2 ^ 53" unfolding M_def by (rule rhe_le)
  have r0: "0 \<le> r" using M0 q0 by (simp add: r_def)
  have ay: "\<bar>y\<bar> = r" using fin r0 by (simp split: if_splits)
  hence lt: "\<bar>y\<bar> < pow2 1024" using fin by simp
  show ?thesis
  proof (cases "M < 2 ^ 53")
    case True
    define m where "m = (if 0 \<le> x then M else - M)"
    have 1: "\<bar>m\<bar> < 2 ^ 53" using True M0 by (simp add: m_def)
    have 2: "- 1074 \<le> e - 52" using e_aq by simp
    have 3: "y = of_int m * pow2 (e - 52)" using fin by (simp add: m_def r_def q_def)
    show ?thesis by (rule rnd_exact [OF 1 2 3 lt])
  next
    case False
    with M53 have M: "M = 2 ^ 53" by simp
    define m :: int where "m = (if 0 \<le> x then 1 else - 1)"
    have "pow2 (e + 1) = pow2 53 * pow2 (e - 52)" by (rule pow2_split)
    also have "pow2 53 = 2 ^ 53" by (simp add: pow2_def)
    finally have "r = pow2 (e + 1)" by (simp add: r_def M q_def)
    hence 3: "y = of_int m * pow2 (e + 1)" using fin by (simp add: m_def)
    have 1: "\<bar>m\<bar> < 2 ^ 53" by (simp add: m_def)
    have 2: "- 1074 \<le> e + 1" using e_aq by simp
    show ?thesis by (rule rnd_exact [OF 1 2 3 lt])
  qed
qed

lemma rnd_0: "rnd 0 = Fin 0"
  using rnd_exact [of 0 0 0] by (simp add: pow2_pos)

lemma rnd_int: "\<bar>m\<bar> < 2 ^ 53 \<Longrightarrow> rnd (of_int m) = Fin (of_int m)"
proof -
  assume m: "\<bar>m\<bar> < 2 ^ 53"
  hence "of_int \<bar>m\<bar> < (2::real) ^ 53" by (metis of_int_less_iff of_int_numeral of_int_power)
  moreover have "(2::real) ^ 53 < pow2 1024" by (simp add: pow2_def)
  ultimately have "\<bar>of_int m :: real\<bar> < pow2 1024" by simp
  with m show ?thesis using rnd_exact [of m 0 "of_int m"] by (simp add: pow2_def)
qed

lemma fquot_double: "fquot u v = Fin a \<Longrightarrow> rnd a = Fin a"
  by (cases u; cases v) (auto simp: rnd_idem rnd_0 inf_of_def split: if_splits)

lemma fmul_double: "fmul u v = Fin a \<Longrightarrow> rnd a = Fin a"
  by (cases u; cases v) (auto simp: rnd_idem inf_of_def split: if_splits)

lemma fadd_double: "fadd u v = Fin a \<Longrightarrow> rnd a = Fin a"
  by (cases u; cases v) (auto simp: rnd_idem)

lemma fsub_double: "fsub u v = Fin a \<Longrightarrow> rnd a = Fin a"
  unfolding fsub_def by (rule fadd_double)

text \<open>The unfolding of \<open>expo\<close> at a numeral, for the evaluation of \<open>rnd\<close> at given numbers.\<close>

lemma expo_numeral:
  "expo (numeral k) a =
     (if 2 \<le> a then expo (pred_numeral k) (a / 2) + 1
      else if a < 1 then expo (pred_numeral k) (a * 2) - 1
      else 0)"
  by (simp add: numeral_eq_Suc)

lemmas rnd_eval = rnd_def pow2_def expo_numeral rhe_def Let_def

section \<open>The transform binding before the ready event\<close>

text \<open>
  C7 (as amended). In the state the constructor builds, before any provider is bound and
  before the ready event, the position query returns the all-zero position and
  resynchronising leaves the object as it is. Invoking the move capability is not a
  no-op: \<open>move_with_transform\<close> is \<open>None\<close>, so the call raises \<open>TypeError\<close>; it issues
  no move and changes no field.
\<close>

theorem initial_binding:
  "call_position_with_transform world init = [Fin 0, Fin 0, Fin 0, Fin 0]
   \<and> reset_last_position world init = init
   \<and> call_move_with_transform init pos spd = (Some TypeError, init)"
  by (simp add: call_position_with_transform_def reset_last_position_def
      call_move_with_transform_def init_def)

text \<open>
  The claim as written fails: the move call in the initial state raises.
\<close>

theorem initial_move_raises:
  "fst (call_move_with_transform init [Fin 0, Fin 0, Fin 0, Fin 0] (Fin 25)) = Some TypeError
   \<and> fst (call_move_with_transform init [Fin 0, Fin 0, Fin 0, Fin 0] (Fin 25)) \<noteq> None"
  by (simp add: call_move_with_transform_def init_def)

section \<open>Parameter lookup\<close>

lemma get_float_default_ok:
  "params g name = Some str \<Longrightarrow> pfloat str = Some v \<Longrightarrow> \<not> fle v a \<Longrightarrow>
   get_float_default pfloat g name d (Some a) = Inr v"
  by (simp add: get_float_default_def get_float_def)

lemma get_float_default_low:
  "params g name = Some str \<Longrightarrow> pfloat str = Some v \<Longrightarrow> fle v a \<Longrightarrow>
   get_float_default pfloat g name d (Some a)
     = Inl (GcmdError (ParamNotAbove (commandline g) name))"
  by (simp add: get_float_default_def get_float_def)

section \<open>The feed-rate override\<close>

lemma rnd_6000: "rnd 6000 = Fin 6000"
  using rnd_int [of 6000] by simp

lemma cmd_M220_closed:
  assumes "speed_factor s \<noteq> Fin 0" "params g ''S'' = Some str" "pfloat str = Some S"
    "\<not> fle S (Fin 0)"
  shows "cmd_M220 pfloat g s =
      (None, s\<lparr>speed := fmul (fquot (speed s) (speed_factor s)) (fquot S (Fin 6000)),
                speed_factor := fquot S (Fin 6000)\<rparr>)"
proof -
  have gf: "get_float_default pfloat g ''S'' (Fin 100) (Some (Fin 0)) = Inr S"
    using assms(2-4) by (rule get_float_default_ok)
  show ?thesis
    using assms(1) by (simp add: cmd_M220_def gf rnd_6000 get_gcode_speed_def Let_def)
qed

lemma init_speed_factor: "speed_factor init = Fin (4803839602528529 / 2 ^ 58)"
  by (simp add: init_def rnd_eval)

lemma init_gcode_speed: "get_gcode_speed init = Inr (Fin 1500)"
  by (simp add: get_gcode_speed_def init_speed_factor) (simp add: init_def rnd_eval)

text \<open>
  C9 (as amended). In a state with a speed factor other than zero, \<open>M220\<close> with a
  parameter \<open>S\<close> that passes the check \<open>above=0.\<close> succeeds, sets the speed factor to the
  float quotient \<open>S / 6000\<close> and the stored speed to the float product of the effective
  feed rate \<open>speed / speed_factor\<close> before the call and the new factor. The effective
  feed rate read by \<open>_get_gcode_speed\<close> after the call is that product divided by the
  new factor: it is the one before the call whenever the product is computed without
  rounding error and the new factor is not zero, and can differ from it in the last
  place otherwise.
\<close>

theorem feed_override_keeps_speed:
  assumes "speed_factor s \<noteq> Fin 0" "params g ''S'' = Some str" "pfloat str = Some S"
    "\<not> fle S (Fin 0)"
  shows "fst (cmd_M220 pfloat g s) = None
     \<and> speed_factor (snd (cmd_M220 pfloat g s)) = fquot S (Fin 6000)
     \<and> speed (snd (cmd_M220 pfloat g s))
          = fmul (fquot (speed s) (speed_factor s)) (fquot S (Fin 6000))
     \<and> get_gcode_speed s = Inr (fquot (speed s) (speed_factor s))
     \<and> (\<forall>a b. fquot (speed s) (speed_factor s) = Fin a \<and> fquot S (Fin 6000) = Fin b
              \<and> b \<noteq> 0 \<and> fmul (Fin a) (Fin b) = Fin (a * b)
            \<longrightarrow> get_gcode_speed (snd (cmd_M220 pfloat g s)) = get_gcode_speed s)"
proof -
  note c = cmd_M220_closed [where pfloat = pfloat and str = str, OF assms]
  have before: "get_gcode_speed s = Inr (fquot (speed s) (speed_factor s))"
    using assms(1) by (simp add: get_gcode_speed_def)
  have exact: "get_gcode_speed (snd (cmd_M220 pfloat g s)) = get_gcode_speed s"
    if a: "fquot (speed s) (speed_factor s) = Fin a" and b: "fquot S (Fin 6000) = Fin b"
      and b0: "b \<noteq> 0" and p: "fmul (Fin a) (Fin b) = Fin (a * b)" for a b
  proof -
    have ra: "rnd a = Fin a" using a by (rule fquot_double)
    have p': "rnd (a * b) = Fin (a * b)" using p by simp
    show ?thesis using b0 assms(1) by (simp add: c get_gcode_speed_def a b p' ra)
  qed
  show ?thesis using c before exact by simp
qed

text \<open>
  The instances \<open>M220 S50\<close> and \<open>M220 S3000\<close> in the initial state: the factor becomes
  the float \<open>50 / 6000\<close>; with \<open>S = 3000\<close> the product \<open>1500 * 0.5\<close> is exact and the
  effective feed rate stays \<open>1500\<close>.
\<close>

theorem feed_override_witness:
  "speed_factor init \<noteq> Fin 0 \<and> \<not> fle (Fin 50) (Fin 0) \<and> \<not> fle (Fin 3000) (Fin 0)
   \<and> fst (cmd_M220 sample_float (cmd ''M220 S50'' [(''S'', ''50'')]) init) = None
   \<and> speed_factor (snd (cmd_M220 sample_float (cmd ''M220 S50'' [(''S'', ''50'')]) init))
        = fquot (Fin 50) (Fin 6000)
   \<and> fquot (Fin 50) (Fin 6000) = Fin (4803839602528529 / 2 ^ 59)
   \<and> get_gcode_speed init = Inr (Fin 1500)
   \<and> get_gcode_speed (snd (cmd_M220 sample_float (cmd ''M220 S3000'' [(''S'', ''3000'')]) init))
        = Inr (Fin 1500)"
proof -
  have h1: "speed_factor init \<noteq> Fin 0" by (simp add: init_speed_factor)
  have h2: "params (cmd ''M220 S50'' [(''S'', ''50'')]) ''S'' = Some ''50''"
    "params (cmd ''M220 S3000'' [(''S'', ''3000'')]) ''S'' = Some ''3000''"
    by (simp_all add: cmd_def)
  have h3: "sample_float ''50'' = Some (Fin 50)" "sample_float ''3000'' = Some (Fin 3000)"
    by (simp_all add: sample_float_def)
  have h4: "\<not> fle (Fin 50) (Fin 0)" "\<not> fle (Fin 3000) (Fin 0)" by simp_all
  have v: "fquot (Fin 50) (Fin 6000) = Fin (4803839602528529 / 2 ^ 59)"
    by (simp add: rnd_eval)
  note t1 = feed_override_keeps_speed
    [where pfloat = sample_float and str = "''50''", OF h1 h2(1) h3(1) h4(1)]
  note t2 = feed_override_keeps_speed
    [where pfloat = sample_float and str = "''3000''", OF h1 h2(2) h3(2) h4(2)]
  have e: "fquot (speed init) (speed_factor init) = Fin 1500
      \<and> fquot (Fin 3000) (Fin 6000) = Fin (1 / 2) \<and> (1 / 2 :: real) \<noteq> 0
      \<and> fmul (Fin 1500) (Fin (1 / 2)) = Fin (1500 * (1 / 2))"
    using init_gcode_speed h1 by (simp add: get_gcode_speed_def) (simp add: rnd_eval)
  have k: "get_gcode_speed (snd (cmd_M220 sample_float (cmd ''M220 S3000'' [(''S'', ''3000'')]) init))
        = get_gcode_speed init"
    using t2 e by blast
  show ?thesis using h1 h4 t1 v k init_gcode_speed by simp
qed

text \<open>
  The claim as written fails: \<open>M220 S129\<close> in the initial state changes the effective
  feed rate from \<open>1500.0\<close> to \<open>1500.0000000000002\<close>.
\<close>

theorem feed_override_rounds:
  "fle (Fin 0) (speed_factor init) \<and> speed_factor init \<noteq> Fin 0 \<and> \<not> fle (Fin 129) (Fin 0)
   \<and> fst (cmd_M220 sample_float (cmd ''M220 S129'' [(''S'', ''129'')]) init) = None
   \<and> get_gcode_speed init = Inr (Fin 1500)
   \<and> get_gcode_speed (snd (cmd_M220 sample_float (cmd ''M220 S129'' [(''S'', ''129'')]) init))
        = Inr (Fin (6597069766656001 / 2 ^ 42))
   \<and> get_gcode_speed (snd (cmd_M220 sample_float (cmd ''M220 S129'' [(''S'', ''129'')]) init))
        \<noteq> get_gcode_speed init"
proof -
  have h1: "speed_factor init \<noteq> Fin 0" by (simp add: init_speed_factor)
  have h0: "fle (Fin 0) (speed_factor init)" by (simp add: init_speed_factor)
  have h2: "params (cmd ''M220 S129'' [(''S'', ''129'')]) ''S'' = Some ''129''"
    by (simp add: cmd_def)
  have h3: "sample_float ''129'' = Some (Fin 129)" by (simp add: sample_float_def)
  have h4: "\<not> fle (Fin 129) (Fin 0)" by simp
  note c = cmd_M220_closed [where pfloat = sample_float and str = "''129''", OF h1 h2 h3 h4]
  have g: "fquot (speed init) (speed_factor init) = Fin 1500"
    using init_gcode_speed h1 by (simp add: get_gcode_speed_def)
  have v: "fquot (Fin 129) (Fin 6000) = Fin (3098476543630901 / 2 ^ 57)"
    by (simp add: rnd_eval)
  have p: "fmul (Fin 1500) (Fin (3098476543630901 / 2 ^ 57)) = Fin (129 / 4)"
    by (simp add: rnd_eval)
  have q: "fquot (Fin (129 / 4)) (Fin (3098476543630901 / 2 ^ 57))
      = Fin (6597069766656001 / 2 ^ 42)"
    by (simp add: rnd_eval)
  have a: "get_gcode_speed (snd (cmd_M220 sample_float (cmd ''M220 S129'' [(''S'', ''129'')]) init))
        = Inr (Fin (6597069766656001 / 2 ^ 42))"
    unfolding c using g v p q by (simp add: get_gcode_speed_def)
  show ?thesis using h0 h1 h4 c a init_gcode_speed by simp
qed

section \<open>Lists, the store and small numbers\<close>

lemma rnd_numeral: "(numeral n :: int) < 2 ^ 53 \<Longrightarrow> rnd (numeral n) = Fin (numeral n)"
  using rnd_int [of "numeral n"] by simp

lemma rnd_neg_numeral:
  "(numeral n :: int) < 2 ^ 53 \<Longrightarrow> rnd (- numeral n) = Fin (- numeral n)"
  using rnd_int [of "- numeral n"] by simp

lemma rnd_1: "rnd 1 = Fin 1"
  using rnd_int [of 1] by simp

lemma rnd_m1: "rnd (- 1) = Fin (- 1)"
  using rnd_int [of "- 1"] by simp

lemmas rnd_small = rnd_0 rnd_1 rnd_m1 rnd_numeral rnd_neg_numeral

lemma fsub_Fin: "fsub (Fin x) (Fin y) = rnd (x - y)"
  by (simp add: fsub_def)

lemma len4: "length xs = 4 \<Longrightarrow> \<exists>a b c d. xs = [a, b, c, d]"
  by (auto simp: numeral_eq_Suc length_Suc_conv)


lemma setitem_fields:
  "base_position (setitem a i v s) = base_position s"
  "last_position (setitem a i v s) = last_position s"
  "homing_position (setitem a i v s) = homing_position s"
  "store (setitem a i v s) = (store s)(a := (store s a)[i := v])"
  "speed (setitem a i v s) = speed s"
  "speed_factor (setitem a i v s) = speed_factor s"
  "extrude_factor (setitem a i v s) = extrude_factor s"
  "absolute_coord (setitem a i v s) = absolute_coord s"
  "absolute_extrude (setitem a i v s) = absolute_extrude s"
  "issued (setitem a i v s) = issued s"
  "move_with_transform (setitem a i v s) = move_with_transform s"
  "saved_states (setitem a i v s) = saved_states s"
  by (simp_all add: setitem_def)

lemmas views = base_pos_def last_pos_def homing_pos_def

section \<open>The extrusion override\<close>

lemma cmd_M221_closed:
  assumes "four s" "extrude_factor s \<noteq> Fin 0" "params g ''S'' = Some str"
    "pfloat str = Some S" "\<not> fle S (Fin 0)"
  shows "cmd_M221 pfloat g s =
     (None,
      (setitem (base_position s) 3
         (fsub (last_pos s ! 3)
            (fmul (fquot (fsub (last_pos s ! 3) (base_pos s ! 3)) (extrude_factor s))
               (fquot S (Fin 100)))) s)
        \<lparr>extrude_factor := fquot S (Fin 100)\<rparr>)"
proof -
  have gf: "get_float_default pfloat g ''S'' (Fin 100) (Some (Fin 0)) = Inr S"
    using assms(3-5) by (rule get_float_default_ok)
  show ?thesis
    using assms(1,2) by (simp add: cmd_M221_def gf Let_def four_def)
qed

text \<open>
  C6 (as amended). In a state with four-component lists and an extrude factor other than
  zero, \<open>M221\<close> with a parameter \<open>S\<close> that passes the check \<open>above=0.\<close> succeeds, sets
  the extrude factor to the float quotient \<open>S / 100\<close> and writes
  \<open>last_E - old_apparent_E * new_factor\<close>, computed in floats, into the extrusion
  component of the base list, where \<open>old_apparent_E\<close> is
  \<open>(last_E - base_E) / old_factor\<close>. When \<open>last_position\<close> and \<open>base_position\<close> are
  different lists, the last position is not written, and the extrusion component of
  \<open>_get_gcode_position\<close> after the call is the one before the call whenever the product
  and the subtraction are computed without rounding error and the new factor is not
  zero; it can differ from it in the last place otherwise.
\<close>

theorem extrude_override_keeps_position:
  assumes "four s" "extrude_factor s \<noteq> Fin 0" "params g ''S'' = Some str"
    "pfloat str = Some S" "\<not> fle S (Fin 0)"
  shows "fst (cmd_M221 pfloat g s) = None
     \<and> extrude_factor (snd (cmd_M221 pfloat g s)) = fquot S (Fin 100)
     \<and> base_pos (snd (cmd_M221 pfloat g s)) =
         (base_pos s)[3 := fsub (last_pos s ! 3)
            (fmul (fquot (fsub (last_pos s ! 3) (base_pos s ! 3)) (extrude_factor s))
               (fquot S (Fin 100)))]
     \<and> (last_position s \<noteq> base_position s \<longrightarrow>
          last_pos (snd (cmd_M221 pfloat g s)) = last_pos s)
     \<and> (\<forall>l a b. last_position s \<noteq> base_position s \<and> last_pos s ! 3 = Fin l
            \<and> fquot (fsub (last_pos s ! 3) (base_pos s ! 3)) (extrude_factor s) = Fin a
            \<and> fquot S (Fin 100) = Fin b \<and> b \<noteq> 0
            \<and> fmul (Fin a) (Fin b) = Fin (a * b)
            \<and> fsub (Fin l) (Fin (a * b)) = Fin (l - a * b)
          \<longrightarrow> (\<exists>p q. get_gcode_position s = Inr p
                 \<and> get_gcode_position (snd (cmd_M221 pfloat g s)) = Inr q
                 \<and> q ! 3 = p ! 3))"
proof -
  note c = cmd_M221_closed [where pfloat = pfloat and str = str, OF assms]
  obtain l0 l1 l2 l3 where l: "last_pos s = [l0, l1, l2, l3]"
    using assms(1) len4 unfolding four_def by blast
  obtain b0 b1 b2 b3 where b: "base_pos s = [b0, b1, b2, b3]"
    using assms(1) len4 unfolding four_def by blast
  have base: "base_pos (snd (cmd_M221 pfloat g s)) =
         (base_pos s)[3 := fsub (last_pos s ! 3)
            (fmul (fquot (fsub (last_pos s ! 3) (base_pos s ! 3)) (extrude_factor s))
               (fquot S (Fin 100)))]"
    unfolding c by (simp add: views setitem_fields)
  have last: "last_pos (snd (cmd_M221 pfloat g s)) = last_pos s"
    if "last_position s \<noteq> base_position s"
    unfolding c using that by (simp add: views setitem_fields)
  have exact: "\<exists>p q. get_gcode_position s = Inr p
      \<and> get_gcode_position (snd (cmd_M221 pfloat g s)) = Inr q \<and> q ! 3 = p ! 3"
    if sep: "last_position s \<noteq> base_position s" and fl: "last_pos s ! 3 = Fin l"
      and fa: "fquot (fsub (last_pos s ! 3) (base_pos s ! 3)) (extrude_factor s) = Fin a"
      and fb: "fquot S (Fin 100) = Fin b" and b0: "b \<noteq> 0"
      and m: "fmul (Fin a) (Fin b) = Fin (a * b)"
      and d: "fsub (Fin l) (Fin (a * b)) = Fin (l - a * b)" for l a b
  proof -
    have ra: "rnd a = Fin a" using fa by (rule fquot_double)
    have rm: "rnd (a * b) = Fin (a * b)" using m by simp
    have e: "extrude_factor (snd (cmd_M221 pfloat g s)) = Fin b"
      unfolding c by (simp add: fb)
    have l3: "l3 = Fin l" using fl l by simp
    have b': "base_pos (snd (cmd_M221 pfloat g s)) = [b0, b1, b2, Fin (l - a * b)]"
      unfolding base using fa fb m d l3 by (simp add: l b)
    have l': "last_pos (snd (cmd_M221 pfloat g s)) = [l0, l1, l2, Fin l]"
      using last [OF sep] l l3 by simp
    have q: "get_gcode_position (snd (cmd_M221 pfloat g s))
        = Inr [fsub l0 b0, fsub l1 b1, fsub l2 b2, Fin a]"
      using b0 by (simp add: get_gcode_position_def l' b' e fsub_Fin rm ra)
    have p: "get_gcode_position s
        = Inr [fsub l0 b0, fsub l1 b1, fsub l2 b2, Fin a]"
      using assms(2) fa by (simp add: get_gcode_position_def l b)
    show ?thesis using p q by simp
  qed
  have 1: "fst (cmd_M221 pfloat g s) = None" unfolding c by simp
  have 2: "extrude_factor (snd (cmd_M221 pfloat g s)) = fquot S (Fin 100)"
    unfolding c by simp
  show ?thesis using 1 2 base last exact by blast
qed

text \<open>The state in the middle of a print.\<close>

lemma printing_views:
  "last_pos printing = [Fin 10, Fin 5, Fin 2, Fin 7]"
  "base_pos printing = [Fin 1, Fin 1, Fin 0, Fin 3]"
  "homing_pos printing = [Fin 0, Fin 0, Fin 0, Fin 0]"
  "extrude_factor printing = Fin 1"
  "last_position printing = 1" "base_position printing = 0" "homing_position printing = 2"
  by (simp_all add: printing_def init_def views)

lemma printing_four: "four printing"
  by (simp add: four_def printing_views)

lemma printing_position: "get_gcode_position printing = Inr [Fin 9, Fin 4, Fin 2, Fin 4]"
  by (simp add: get_gcode_position_def printing_views fsub_Fin rnd_small)

text \<open>
  The instance \<open>M221 S200\<close> in the middle of a print: the factor becomes \<open>2\<close>, the
  product \<open>4 * 2\<close> and the difference \<open>7 - 8\<close> are exact, and the logical extrusion
  stays \<open>4\<close>.
\<close>

theorem extrude_override_witness:
  "four printing \<and> extrude_factor printing \<noteq> Fin 0 \<and> \<not> fle (Fin 200) (Fin 0)
   \<and> fst (cmd_M221 sample_float (cmd ''M221 S200'' [(''S'', ''200'')]) printing) = None
   \<and> extrude_factor (snd (cmd_M221 sample_float (cmd ''M221 S200'' [(''S'', ''200'')]) printing))
        = Fin 2
   \<and> base_pos (snd (cmd_M221 sample_float (cmd ''M221 S200'' [(''S'', ''200'')]) printing))
        = [Fin 1, Fin 1, Fin 0, Fin (- 1)]
   \<and> get_gcode_position printing = Inr [Fin 9, Fin 4, Fin 2, Fin 4]
   \<and> (\<exists>q. get_gcode_position
              (snd (cmd_M221 sample_float (cmd ''M221 S200'' [(''S'', ''200'')]) printing)) = Inr q
          \<and> q ! 3 = Fin 4)"
proof -
  let ?g = "cmd ''M221 S200'' [(''S'', ''200'')]"
  have h2: "extrude_factor printing \<noteq> Fin 0" by (simp add: printing_views)
  have h3: "params ?g ''S'' = Some ''200''" by (simp add: cmd_def)
  have h4: "sample_float ''200'' = Some (Fin 200)" by (simp add: sample_float_def)
  have h5: "\<not> fle (Fin 200) (Fin 0)" by simp
  note t = extrude_override_keeps_position
    [where pfloat = sample_float and str = "''200''", OF printing_four h2 h3 h4 h5]
  have n: "fquot (Fin 200) (Fin 100) = Fin 2" by (simp add: rnd_small)
  have e: "last_position printing \<noteq> base_position printing \<and> last_pos printing ! 3 = Fin 7
      \<and> fquot (fsub (last_pos printing ! 3) (base_pos printing ! 3)) (extrude_factor printing)
          = Fin 4
      \<and> fquot (Fin 200) (Fin 100) = Fin 2 \<and> (2::real) \<noteq> 0
      \<and> fmul (Fin 4) (Fin 2) = Fin (4 * 2)
      \<and> fsub (Fin 7) (Fin (4 * 2)) = Fin (7 - 4 * 2)"
    by (simp add: printing_views fsub_Fin rnd_small)
  have b: "base_pos (snd (cmd_M221 sample_float ?g printing)) = [Fin 1, Fin 1, Fin 0, Fin (- 1)]"
    using t by (simp add: printing_views fsub_Fin rnd_small)
  from t e obtain p q where pq: "get_gcode_position printing = Inr p"
    "get_gcode_position (snd (cmd_M221 sample_float ?g printing)) = Inr q" "q ! 3 = p ! 3"
    by blast
  have "p = [Fin 9, Fin 4, Fin 2, Fin 4]" using pq(1) printing_position by simp
  hence "q ! 3 = Fin 4" using pq(3) by simp
  with pq(2) have x: "\<exists>q. get_gcode_position (snd (cmd_M221 sample_float ?g printing)) = Inr q
      \<and> q ! 3 = Fin 4" by blast
  show ?thesis using printing_four h2 h5 t n b printing_position x by simp
qed

text \<open>
  The claim as written fails: \<open>M221 S30\<close> in the middle of a print changes the logical
  extrusion from \<open>4.0\<close> to \<open>4.000000000000001\<close>.
\<close>

theorem extrude_override_rounds:
  "four printing \<and> fle (Fin 0) (extrude_factor printing) \<and> extrude_factor printing \<noteq> Fin 0
   \<and> \<not> fle (Fin 30) (Fin 0)
   \<and> fst (cmd_M221 sample_float (cmd ''M221 S30'' [(''S'', ''30'')]) printing) = None
   \<and> get_gcode_position printing = Inr [Fin 9, Fin 4, Fin 2, Fin 4]
   \<and> get_gcode_position (snd (cmd_M221 sample_float (cmd ''M221 S30'' [(''S'', ''30'')]) printing))
        = Inr [Fin 9, Fin 4, Fin 2, Fin (4503599627370497 / 2 ^ 50)]
   \<and> Fin (4503599627370497 / 2 ^ 50) \<noteq> Fin 4"
proof -
  let ?g = "cmd ''M221 S30'' [(''S'', ''30'')]"
  have h0: "fle (Fin 0) (extrude_factor printing)" by (simp add: printing_views)
  have h2: "extrude_factor printing \<noteq> Fin 0" by (simp add: printing_views)
  have h3: "params ?g ''S'' = Some ''30''" by (simp add: cmd_def)
  have h4: "sample_float ''30'' = Some (Fin 30)" by (simp add: sample_float_def)
  have h5: "\<not> fle (Fin 30) (Fin 0)" by simp
  note c = cmd_M221_closed
    [where pfloat = sample_float and str = "''30''", OF printing_four h2 h3 h4 h5]
  have n: "fquot (Fin 30) (Fin 100) = Fin (5404319552844595 / 2 ^ 54)"
    by (simp add: rnd_eval)
  have ev: "fquot (fsub (Fin 7) (Fin 3)) (Fin 1) = Fin 4"
    by (simp add: fsub_Fin rnd_small)
  have p: "fmul (Fin 4) (Fin (5404319552844595 / 2 ^ 54)) = Fin (5404319552844595 / 2 ^ 52)"
    by (simp add: rnd_eval)
  have d: "fsub (Fin 7) (Fin (5404319552844595 / 2 ^ 52)) = Fin (6530219459687219 / 2 ^ 50)"
    by (simp add: fsub_Fin rnd_eval)
  have d2: "fsub (Fin 7) (Fin (6530219459687219 / 2 ^ 50)) = Fin (1351079888211149 / 2 ^ 50)"
    by (simp add: fsub_Fin rnd_eval)
  have q: "fquot (Fin (1351079888211149 / 2 ^ 50)) (Fin (5404319552844595 / 2 ^ 54))
      = Fin (4503599627370497 / 2 ^ 50)"
    by (simp add: rnd_eval)
  have s': "snd (cmd_M221 sample_float ?g printing) =
      (setitem 0 3 (Fin (6530219459687219 / 2 ^ 50)) printing)
        \<lparr>extrude_factor := Fin (5404319552844595 / 2 ^ 54)\<rparr>"
    unfolding c using n ev p d by (simp add: printing_views)
  have a: "get_gcode_position (snd (cmd_M221 sample_float ?g printing))
        = Inr [Fin 9, Fin 4, Fin 2, Fin (4503599627370497 / 2 ^ 50)]"
    unfolding s' using d2 q
    by (simp add: get_gcode_position_def views setitem_fields printing_def init_def
        fsub_Fin rnd_small)
  have f: "fst (cmd_M221 sample_float ?g printing) = None" unfolding c by simp
  show ?thesis using printing_four h0 h2 h5 f a printing_position by simp
qed

section \<open>Redefining the origin\<close>





lemma fresh_neq:
  "fresh s \<noteq> last_position s" "fresh s \<noteq> base_position s" "fresh s \<noteq> homing_position s"
  "last_position s \<noteq> fresh s" "base_position s \<noteq> fresh s" "homing_position s \<noteq> fresh s"
  by (simp_all add: fresh_def)

lemma fsub_self: "finite_double x \<Longrightarrow> fsub x x = Fin 0"
  by (cases x) (simp_all add: fsub_Fin rnd_0)






section \<open>The store\<close>

lemma call_move_fields:
  "last_position (snd (call_move_with_transform s p v)) = last_position s"
  "base_position (snd (call_move_with_transform s p v)) = base_position s"
  "homing_position (snd (call_move_with_transform s p v)) = homing_position s"
  "store (snd (call_move_with_transform s p v)) = store s"
  "extrude_factor (snd (call_move_with_transform s p v)) = extrude_factor s"
  by (simp_all add: call_move_with_transform_def split: option.splits move_fn.splits)

lemma call_move_views:
  "last_pos (snd (call_move_with_transform s p v)) = last_pos s"
  "base_pos (snd (call_move_with_transform s p v)) = base_pos s"
  "homing_pos (snd (call_move_with_transform s p v)) = homing_pos s"
  by (simp_all add: views call_move_fields)

lemma views_upd:
  "last_pos (s\<lparr>absolute_coord := b\<rparr>) = last_pos s"
  "base_pos (s\<lparr>absolute_coord := b\<rparr>) = base_pos s"
  "homing_pos (s\<lparr>absolute_coord := b\<rparr>) = homing_pos s"
  "last_pos (s\<lparr>absolute_extrude := b\<rparr>) = last_pos s"
  "base_pos (s\<lparr>absolute_extrude := b\<rparr>) = base_pos s"
  "homing_pos (s\<lparr>absolute_extrude := b\<rparr>) = homing_pos s"
  "last_pos (s\<lparr>speed := x\<rparr>) = last_pos s"
  "base_pos (s\<lparr>speed := x\<rparr>) = base_pos s"
  "homing_pos (s\<lparr>speed := x\<rparr>) = homing_pos s"
  "last_pos (s\<lparr>speed_factor := x\<rparr>) = last_pos s"
  "base_pos (s\<lparr>speed_factor := x\<rparr>) = base_pos s"
  "homing_pos (s\<lparr>speed_factor := x\<rparr>) = homing_pos s"
  "last_pos (s\<lparr>extrude_factor := x\<rparr>) = last_pos s"
  "base_pos (s\<lparr>extrude_factor := x\<rparr>) = base_pos s"
  "homing_pos (s\<lparr>extrude_factor := x\<rparr>) = homing_pos s"
  "last_pos (s\<lparr>issued := i\<rparr>) = last_pos s"
  "base_pos (s\<lparr>issued := i\<rparr>) = base_pos s"
  "homing_pos (s\<lparr>issued := i\<rparr>) = homing_pos s"
  "last_pos (s\<lparr>saved_states := m\<rparr>) = last_pos s"
  "base_pos (s\<lparr>saved_states := m\<rparr>) = base_pos s"
  "homing_pos (s\<lparr>saved_states := m\<rparr>) = homing_pos s"
  by (simp_all add: views)

lemma fresh_upd:
  "fresh (s\<lparr>absolute_coord := b\<rparr>) = fresh s"
  "fresh (s\<lparr>absolute_extrude := b\<rparr>) = fresh s"
  "fresh (s\<lparr>speed := x\<rparr>) = fresh s"
  "fresh (s\<lparr>speed_factor := x\<rparr>) = fresh s"
  "fresh (s\<lparr>extrude_factor := x\<rparr>) = fresh s"
  by (simp_all add: fresh_def)

lemma bind_base_fields:
  "base_position (bind_base xs s) = fresh s"
  "last_position (bind_base xs s) = last_position s"
  "homing_position (bind_base xs s) = homing_position s"
  "extrude_factor (bind_base xs s) = extrude_factor s"
  "base_pos (bind_base xs s) = xs"
  "last_pos (bind_base xs s) = last_pos s"
  "homing_pos (bind_base xs s) = homing_pos s"
  by (simp_all add: bind_base_def views fresh_neq)

lemma bind_homing_fields:
  "base_position (bind_homing xs s) = base_position s"
  "last_position (bind_homing xs s) = last_position s"
  "homing_position (bind_homing xs s) = fresh s"
  "extrude_factor (bind_homing xs s) = extrude_factor s"
  "base_pos (bind_homing xs s) = base_pos s"
  "last_pos (bind_homing xs s) = last_pos s"
  "homing_pos (bind_homing xs s) = xs"
  by (simp_all add: bind_homing_def views fresh_neq)

section \<open>Saving and restoring\<close>

text \<open>The state of a restore once the snapshot is copied in.\<close>

lemma restore_bind:
  fixes s :: gcode_move and st :: saved_state
  defines "s1 \<equiv> bind_homing (sv_homing_position st)
                     (bind_base (sv_base_position st)
                        (s\<lparr>absolute_coord := sv_absolute_coord st,
                           absolute_extrude := sv_absolute_extrude st\<rparr>))
                     \<lparr>speed := sv_speed st,
                      speed_factor := sv_speed_factor st,
                      extrude_factor := sv_extrude_factor st\<rparr>"
  shows "last_pos s1 = last_pos s" "base_pos s1 = sv_base_position st"
    "homing_pos s1 = sv_homing_position st" "extrude_factor s1 = sv_extrude_factor st"
    "last_position s1 \<noteq> base_position s1" "last_position s1 = last_position s"
  by (simp_all add: s1_def views_upd bind_base_fields bind_homing_fields fresh_upd fresh_neq)

lemma setitem_views:
  "base_pos (setitem a i v s) = (if a = base_position s then (base_pos s)[i := v] else base_pos s)"
  "last_pos (setitem a i v s) = (if a = last_position s then (last_pos s)[i := v] else last_pos s)"
  "homing_pos (setitem a i v s)
     = (if a = homing_position s then (homing_pos s)[i := v] else homing_pos s)"
  by (simp_all add: views setitem_def)

lemma store_upd_views:
  "last_pos (s\<lparr>store := (store s)(a := xs)\<rparr>) = (if a = last_position s then xs else last_pos s)"
  "base_pos (s\<lparr>store := (store s)(a := xs)\<rparr>) = (if a = base_position s then xs else base_pos s)"
  "homing_pos (s\<lparr>store := (store s)(a := xs)\<rparr>)
     = (if a = homing_position s then xs else homing_pos s)"
  by (simp_all add: views)

lemma bind_base_rest:
  "store (bind_base xs s) = (store s)(fresh s := xs)"
  "speed (bind_base xs s) = speed s"
  "speed_factor (bind_base xs s) = speed_factor s"
  "absolute_coord (bind_base xs s) = absolute_coord s"
  "absolute_extrude (bind_base xs s) = absolute_extrude s"
  "issued (bind_base xs s) = issued s"
  "move_with_transform (bind_base xs s) = move_with_transform s"
  "saved_states (bind_base xs s) = saved_states s"
  by (simp_all add: bind_base_def)

lemma bind_homing_rest:
  "store (bind_homing xs s) = (store s)(fresh s := xs)"
  "speed (bind_homing xs s) = speed s"
  "speed_factor (bind_homing xs s) = speed_factor s"
  "absolute_coord (bind_homing xs s) = absolute_coord s"
  "absolute_extrude (bind_homing xs s) = absolute_extrude s"
  "issued (bind_homing xs s) = issued s"
  "move_with_transform (bind_homing xs s) = move_with_transform s"
  "saved_states (bind_homing xs s) = saved_states s"
  by (simp_all add: bind_homing_def)

lemma fresh_bind:
  "fresh (bind_base xs s) = Suc (fresh s)" "fresh (bind_homing xs s) = Suc (fresh s)"
  "fresh (bind_last xs s) = Suc (fresh s)"
  by (auto simp: fresh_def bind_base_def bind_homing_def bind_last_def)

lemma fresh_neq_Suc:
  "last_position s \<noteq> Suc (fresh s)" "base_position s \<noteq> Suc (fresh s)"
  "homing_position s \<noteq> Suc (fresh s)"
  "Suc (fresh s) \<noteq> last_position s" "Suc (fresh s) \<noteq> base_position s"
  "Suc (fresh s) \<noteq> homing_position s"
  by (auto simp: fresh_def)

lemmas store_calc = views setitem_fields bind_base_fields(1-4) bind_homing_fields(1-4)
  bind_base_rest bind_homing_rest fresh_neq fresh_upd fresh_bind fresh_neq_Suc

lemma restore_fields:
  assumes "saved_states s (get_str g ''NAME'' ''default'') = Some st"
    "3 < length (last_pos s)" "3 < length (sv_last_position st)"
    "3 < length (sv_base_position st)"
  shows "base_pos (snd (cmd_RESTORE_GCODE_STATE pfloat pint g s)) =
           (sv_base_position st)[3 := fadd (sv_base_position st ! 3)
              (fsub (last_pos s ! 3) (sv_last_position st ! 3))]"
    and "last_pos (snd (cmd_RESTORE_GCODE_STATE pfloat pint g s)) = last_pos s
         \<or> last_pos (snd (cmd_RESTORE_GCODE_STATE pfloat pint g s)) =
             take 3 (sv_last_position st) @ drop 3 (last_pos s)"
    and "extrude_factor (snd (cmd_RESTORE_GCODE_STATE pfloat pint g s)) = sv_extrude_factor st"
    and "fst (cmd_RESTORE_GCODE_STATE pfloat pint g s)
           \<noteq> Some (GcmdError (UnknownGcodeState (get_str g ''NAME'' ''default'')))"
  using assms
  by (simp_all add: cmd_RESTORE_GCODE_STATE_def Let_def store_calc call_move_fields
        call_move_with_transform_def get_int_def get_float_default_def get_float_def
      split: sum.splits option.splits move_fn.splits)

lemma same_position:
  "base_pos a = base_pos b \<Longrightarrow> last_pos a = last_pos b \<Longrightarrow>
   extrude_factor a = extrude_factor b \<Longrightarrow> get_gcode_position a = get_gcode_position b"
  by (simp add: get_gcode_position_def Let_def)

lemma gcode_position_E:
  "length (last_pos s) = 4 \<Longrightarrow> length (base_pos s) = 4 \<Longrightarrow> extrude_factor s \<noteq> Fin 0 \<Longrightarrow>
   \<exists>q. get_gcode_position s = Inr q
     \<and> q ! 3 = fquot (fsub (last_pos s ! 3) (base_pos s ! 3)) (extrude_factor s)"
  by (simp add: get_gcode_position_def Let_def)

lemma fadd_zero: "is_double b \<Longrightarrow> fadd b (Fin 0) = b"
  by (cases b) (simp_all add: is_double_def)

text \<open>
  C5 (as amended). On position lists of four components, a restore of an existing
  snapshot does not report an unknown state and does not overwrite the extrusion
  component of \<open>last_position\<close> (with or without \<open>MOVE\<close>); the base list becomes a copy
  of the snapshot's, with \<open>e_diff = last_E - snapshot.last_E\<close> added to its extrusion
  component, in floats. This keeps the extruder where it is and takes the logical
  extrusion back: when the subtraction and the addition are computed without rounding
  error, the extrusion component of \<open>_get_gcode_position\<close> after the restore is the one
  the snapshot had when it was saved, whatever was extruded since. A save followed at
  once by a restore of the same name gives back the base and last lists, so
  \<open>_get_gcode_position\<close> is unchanged (for a finite last extrusion component and a
  base extrusion component that is a binary64 number).
\<close>

theorem restore_extrusion:
  assumes "four s"
  shows "(\<forall>st. saved_states s (get_str g ''NAME'' ''default'') = Some st
              \<and> length (sv_last_position st) = 4 \<and> length (sv_base_position st) = 4 \<longrightarrow>
            fst (cmd_RESTORE_GCODE_STATE pfloat pint g s)
              \<noteq> Some (GcmdError (UnknownGcodeState (get_str g ''NAME'' ''default'')))
            \<and> last_pos (snd (cmd_RESTORE_GCODE_STATE pfloat pint g s)) ! 3 = last_pos s ! 3
            \<and> base_pos (snd (cmd_RESTORE_GCODE_STATE pfloat pint g s)) =
                (sv_base_position st)[3 := fadd (sv_base_position st ! 3)
                   (fsub (last_pos s ! 3) (sv_last_position st ! 3))]
            \<and> extrude_factor (snd (cmd_RESTORE_GCODE_STATE pfloat pint g s))
                = sv_extrude_factor st
            \<and> (\<forall>l sl sb. last_pos s ! 3 = Fin l \<and> sv_last_position st ! 3 = Fin sl
                   \<and> sv_base_position st ! 3 = Fin sb
                   \<and> fsub (Fin l) (Fin sl) = Fin (l - sl)
                   \<and> fadd (Fin sb) (Fin (l - sl)) = Fin (sb + (l - sl))
                   \<and> sv_extrude_factor st \<noteq> Fin 0 \<longrightarrow>
                 (\<exists>q. get_gcode_position (snd (cmd_RESTORE_GCODE_STATE pfloat pint g s)) = Inr q
                    \<and> q ! 3 = fquot (fsub (sv_last_position st ! 3) (sv_base_position st ! 3))
                                (sv_extrude_factor st))))
       \<and> (get_str g0 ''NAME'' ''default'' = get_str g ''NAME'' ''default''
            \<and> finite_double (last_pos s ! 3) \<and> is_double (base_pos s ! 3) \<longrightarrow>
            base_pos (snd (cmd_RESTORE_GCODE_STATE pfloat pint g
                (snd (cmd_SAVE_GCODE_STATE g0 s)))) = base_pos s
            \<and> last_pos (snd (cmd_RESTORE_GCODE_STATE pfloat pint g
                (snd (cmd_SAVE_GCODE_STATE g0 s)))) = last_pos s
            \<and> get_gcode_position (snd (cmd_RESTORE_GCODE_STATE pfloat pint g
                (snd (cmd_SAVE_GCODE_STATE g0 s)))) = get_gcode_position s)"
proof (intro conjI allI impI)
  fix st
  assume a: "saved_states s (get_str g ''NAME'' ''default'') = Some st
              \<and> length (sv_last_position st) = 4 \<and> length (sv_base_position st) = 4"
  have l: "3 < length (last_pos s)" using assms by (simp add: four_def)
  have f: "saved_states s (get_str g ''NAME'' ''default'') = Some st"
    "3 < length (sv_last_position st)" "3 < length (sv_base_position st)"
    using a by simp_all
  note r = restore_fields [OF f(1) l f(2,3), of pfloat pint]
  let ?s' = "snd (cmd_RESTORE_GCODE_STATE pfloat pint g s)"
  show "fst (cmd_RESTORE_GCODE_STATE pfloat pint g s)
              \<noteq> Some (GcmdError (UnknownGcodeState (get_str g ''NAME'' ''default'')))"
    by (rule r(4))
  show l3: "last_pos ?s' ! 3 = last_pos s ! 3"
    using r(2) a l by (auto simp: nth_append)
  show b: "base_pos ?s' =
                (sv_base_position st)[3 := fadd (sv_base_position st ! 3)
                   (fsub (last_pos s ! 3) (sv_last_position st ! 3))]"
    by (rule r(1))
  show e: "extrude_factor ?s' = sv_extrude_factor st" by (rule r(3))
  fix x sl sb
  assume x: "last_pos s ! 3 = Fin x \<and> sv_last_position st ! 3 = Fin sl
                   \<and> sv_base_position st ! 3 = Fin sb
                   \<and> fsub (Fin x) (Fin sl) = Fin (x - sl)
                   \<and> fadd (Fin sb) (Fin (x - sl)) = Fin (sb + (x - sl))
                   \<and> sv_extrude_factor st \<noteq> Fin 0"
  have ll: "length (last_pos ?s') = 4"
    using r(2) a assms by (auto simp: four_def)
  have lb: "length (base_pos ?s') = 4" using a by (simp add: b)
  have b3: "base_pos ?s' ! 3 = Fin (sb + (x - sl))"
    using x f(3) by (simp add: b)
  have "x - (sb + (x - sl)) = sl - sb" by simp
  hence d: "fsub (last_pos ?s' ! 3) (base_pos ?s' ! 3)
      = fsub (sv_last_position st ! 3) (sv_base_position st ! 3)"
    using x by (simp add: l3 b3 fsub_Fin)
  have "extrude_factor ?s' \<noteq> Fin 0" using x by (simp add: e)
  from gcode_position_E [OF ll lb this]
  show "\<exists>q. get_gcode_position ?s' = Inr q
        \<and> q ! 3 = fquot (fsub (sv_last_position st ! 3) (sv_base_position st ! 3))
                    (sv_extrude_factor st)"
    by (simp add: d e)
next
  assume n: "get_str g0 ''NAME'' ''default'' = get_str g ''NAME'' ''default''
            \<and> finite_double (last_pos s ! 3) \<and> is_double (base_pos s ! 3)"
  define s0 where "s0 = snd (cmd_SAVE_GCODE_STATE g0 s)"
  define st where "st = \<lparr> sv_absolute_coord = absolute_coord s,
             sv_absolute_extrude = absolute_extrude s,
             sv_base_position = base_pos s,
             sv_last_position = last_pos s,
             sv_homing_position = homing_pos s,
             sv_speed = speed s,
             sv_speed_factor = speed_factor s,
             sv_extrude_factor = extrude_factor s \<rparr>"
  have sv: "saved_states s0 (get_str g ''NAME'' ''default'') = Some st"
    using n by (simp add: s0_def st_def cmd_SAVE_GCODE_STATE_def Let_def)
  have l0: "last_pos s0 = last_pos s"
    by (simp add: s0_def cmd_SAVE_GCODE_STATE_def Let_def views_upd)
  have l: "3 < length (last_pos s0)" "3 < length (sv_last_position st)"
    "3 < length (sv_base_position st)"
    using assms by (simp_all add: l0 st_def four_def)
  note r = restore_fields [OF sv l, of pfloat pint]
  have z: "fadd (base_pos s ! 3) (fsub (last_pos s ! 3) (last_pos s ! 3)) = base_pos s ! 3"
    using n by (simp add: fsub_self fadd_zero)
  have b: "base_pos (snd (cmd_RESTORE_GCODE_STATE pfloat pint g s0)) = base_pos s"
    using r(1) z by (simp add: st_def l0)
  have p: "last_pos (snd (cmd_RESTORE_GCODE_STATE pfloat pint g s0)) = last_pos s"
    using r(2) by (auto simp: st_def l0)
  have e: "extrude_factor (snd (cmd_RESTORE_GCODE_STATE pfloat pint g s0)) = extrude_factor s"
    using r(3) by (simp add: st_def)
  show "base_pos (snd (cmd_RESTORE_GCODE_STATE pfloat pint g
                (snd (cmd_SAVE_GCODE_STATE g0 s)))) = base_pos s"
    using b by (simp add: s0_def)
  show "last_pos (snd (cmd_RESTORE_GCODE_STATE pfloat pint g
                (snd (cmd_SAVE_GCODE_STATE g0 s)))) = last_pos s"
    using p by (simp add: s0_def)
  show "get_gcode_position (snd (cmd_RESTORE_GCODE_STATE pfloat pint g
                (snd (cmd_SAVE_GCODE_STATE g0 s)))) = get_gcode_position s"
    using same_position [OF b p e] by (simp add: s0_def)
qed

text \<open>The state saved in the middle of a print and then extruded to \<open>9\<close>.\<close>

lemma saved_views:
  "last_pos saved_then_extruded = [Fin 10, Fin 5, Fin 2, Fin 9]"
  "base_pos saved_then_extruded = [Fin 1, Fin 1, Fin 0, Fin 3]"
  "extrude_factor saved_then_extruded = Fin 1"
  "saved_states saved_then_extruded ''default'' = Some
     \<lparr> sv_absolute_coord = True, sv_absolute_extrude = True,
       sv_base_position = [Fin 1, Fin 1, Fin 0, Fin 3],
       sv_last_position = [Fin 10, Fin 5, Fin 2, Fin 7],
       sv_homing_position = [Fin 0, Fin 0, Fin 0, Fin 0], sv_speed = Fin 25,
       sv_speed_factor = fquot (Fin 1) (Fin 60), sv_extrude_factor = Fin 1 \<rparr>"
  "length (homing_pos saved_then_extruded) = 4"
  by (simp_all add: saved_then_extruded_def cmd_SAVE_GCODE_STATE_def get_str_def cmd_def
      Let_def setitem_def printing_def init_def views)

lemma saved_position:
  "get_gcode_position saved_then_extruded = Inr [Fin 9, Fin 4, Fin 2, Fin 6]"
  by (simp add: get_gcode_position_def saved_views fsub_Fin rnd_small)

text \<open>
  The instances: a restore after an extrusion from 7 to 9, and a save followed by
  \<open>RESTORE_GCODE_STATE MOVE=1\<close>.
\<close>

theorem restore_witness:
  "four saved_then_extruded \<and> four printing
   \<and> last_pos (snd (cmd_RESTORE_GCODE_STATE sample_float sample_int
        (cmd ''RESTORE_GCODE_STATE'' []) saved_then_extruded)) ! 3 = Fin 9
   \<and> base_pos (snd (cmd_RESTORE_GCODE_STATE sample_float sample_int
        (cmd ''RESTORE_GCODE_STATE'' []) saved_then_extruded)) = [Fin 1, Fin 1, Fin 0, Fin 5]
   \<and> (\<exists>q. get_gcode_position (snd (cmd_RESTORE_GCODE_STATE sample_float sample_int
        (cmd ''RESTORE_GCODE_STATE'' []) saved_then_extruded)) = Inr q \<and> q ! 3 = Fin 4)
   \<and> get_gcode_position (snd (cmd_RESTORE_GCODE_STATE sample_float sample_int
        (cmd ''RESTORE_GCODE_STATE MOVE=1'' [(''MOVE'', ''1'')])
        (snd (cmd_SAVE_GCODE_STATE (cmd ''SAVE_GCODE_STATE'' []) printing))))
       = get_gcode_position printing
   \<and> get_gcode_position printing = Inr [Fin 9, Fin 4, Fin 2, Fin 4]"
proof -
  let ?st = "\<lparr> sv_absolute_coord = True, sv_absolute_extrude = True,
       sv_base_position = [Fin 1, Fin 1, Fin 0, Fin 3],
       sv_last_position = [Fin 10, Fin 5, Fin 2, Fin 7],
       sv_homing_position = [Fin 0, Fin 0, Fin 0, Fin 0], sv_speed = Fin 25,
       sv_speed_factor = fquot (Fin 1) (Fin 60), sv_extrude_factor = Fin 1 \<rparr>"
  have h1: "four saved_then_extruded" by (simp add: four_def saved_views)
  have sv: "saved_states saved_then_extruded
      (get_str (cmd ''RESTORE_GCODE_STATE'' []) ''NAME'' ''default'') = Some ?st
      \<and> length (sv_last_position ?st) = 4 \<and> length (sv_base_position ?st) = 4"
    by (simp add: saved_views get_str_def cmd_def)
  have n: "get_str (cmd ''SAVE_GCODE_STATE'' []) ''NAME'' ''default''
      = get_str (cmd ''RESTORE_GCODE_STATE MOVE=1'' [(''MOVE'', ''1'')]) ''NAME'' ''default''
      \<and> finite_double (last_pos printing ! 3) \<and> is_double (base_pos printing ! 3)"
    by (simp add: get_str_def cmd_def printing_views is_double_def rnd_small)
  note t1 = restore_extrusion [OF h1, where g = "cmd ''RESTORE_GCODE_STATE'' []"
      and pfloat = sample_float and pint = sample_int, THEN conjunct1, rule_format, OF sv]
  note t2 = restore_extrusion [OF printing_four,
      where g = "cmd ''RESTORE_GCODE_STATE MOVE=1'' [(''MOVE'', ''1'')]"
      and ?g0.0 = "cmd ''SAVE_GCODE_STATE'' []"
      and pfloat = sample_float and pint = sample_int, THEN conjunct2, rule_format, OF n]
  have l: "last_pos (snd (cmd_RESTORE_GCODE_STATE sample_float sample_int
        (cmd ''RESTORE_GCODE_STATE'' []) saved_then_extruded)) ! 3 = Fin 9"
    using t1 by (simp add: saved_views)
  have b: "base_pos (snd (cmd_RESTORE_GCODE_STATE sample_float sample_int
        (cmd ''RESTORE_GCODE_STATE'' []) saved_then_extruded)) = [Fin 1, Fin 1, Fin 0, Fin 5]"
    using t1 by (simp add: saved_views fsub_Fin rnd_small)
  have x: "last_pos saved_then_extruded ! 3 = Fin 9 \<and> sv_last_position ?st ! 3 = Fin 7
      \<and> sv_base_position ?st ! 3 = Fin 3 \<and> fsub (Fin 9) (Fin 7) = Fin (9 - 7)
      \<and> fadd (Fin 3) (Fin (9 - 7)) = Fin (3 + (9 - 7)) \<and> sv_extrude_factor ?st \<noteq> Fin 0"
    by (simp add: saved_views fsub_Fin rnd_small)
  have "\<exists>q. get_gcode_position (snd (cmd_RESTORE_GCODE_STATE sample_float sample_int
        (cmd ''RESTORE_GCODE_STATE'' []) saved_then_extruded)) = Inr q
      \<and> q ! 3 = fquot (fsub (sv_last_position ?st ! 3) (sv_base_position ?st ! 3))
                  (sv_extrude_factor ?st)"
    using t1 x by blast
  hence q: "\<exists>q. get_gcode_position (snd (cmd_RESTORE_GCODE_STATE sample_float sample_int
        (cmd ''RESTORE_GCODE_STATE'' []) saved_then_extruded)) = Inr q \<and> q ! 3 = Fin 4"
    by (simp add: fsub_Fin rnd_small)
  show ?thesis using h1 printing_four l b q t2 printing_position by simp
qed

text \<open>
  The claim as written fails: the logical extrusion is \<open>4\<close> when the state is saved,
  \<open>6\<close> after the extrusion that follows, and \<open>4\<close> again after the restore; the two units
  extruded since the save are not kept.
\<close>

theorem restore_reverts_extrusion:
  "get_gcode_position (snd (cmd_SAVE_GCODE_STATE (cmd ''SAVE_GCODE_STATE'' []) printing))
     = Inr [Fin 9, Fin 4, Fin 2, Fin 4]
   \<and> get_gcode_position saved_then_extruded = Inr [Fin 9, Fin 4, Fin 2, Fin 6]
   \<and> fst (cmd_RESTORE_GCODE_STATE sample_float sample_int
        (cmd ''RESTORE_GCODE_STATE'' []) saved_then_extruded) = None
   \<and> get_gcode_position (snd (cmd_RESTORE_GCODE_STATE sample_float sample_int
        (cmd ''RESTORE_GCODE_STATE'' []) saved_then_extruded))
       = Inr [Fin 9, Fin 4, Fin 2, Fin 4]"
proof -
  let ?g = "cmd ''RESTORE_GCODE_STATE'' []"
  let ?s' = "snd (cmd_RESTORE_GCODE_STATE sample_float sample_int ?g saved_then_extruded)"
  have sv: "get_gcode_position (snd (cmd_SAVE_GCODE_STATE (cmd ''SAVE_GCODE_STATE'' []) printing))
     = get_gcode_position printing"
    by (rule same_position) (simp_all add: cmd_SAVE_GCODE_STATE_def Let_def views_upd)
  have n: "get_str ?g ''NAME'' ''default'' = ''default''" "params ?g ''MOVE'' = None"
    by (simp_all add: get_str_def cmd_def)
  have c: "fst (cmd_RESTORE_GCODE_STATE sample_float sample_int ?g saved_then_extruded) = None
      \<and> last_pos ?s' = [Fin 10, Fin 5, Fin 2, Fin 9]
      \<and> base_pos ?s' = [Fin 1, Fin 1, Fin 0, Fin 5]
      \<and> extrude_factor ?s' = Fin 1"
    by (simp add: cmd_RESTORE_GCODE_STATE_def Let_def n saved_views get_int_def store_calc
        saved_views [unfolded views] fsub_Fin rnd_small)
  have "get_gcode_position ?s' = Inr [Fin 9, Fin 4, Fin 2, Fin 4]"
    using c by (simp add: get_gcode_position_def fsub_Fin rnd_small)
  thus ?thesis using sv printing_position saved_position c by simp
qed

end
